theory Spec2Isabelle
  imports Complex_Main "HOL-Library.AList" "HOL-Library.Multiset" "HOL-Library.Log_Nat"
begin

section \<open>Data model (types.ts)\<close>

text \<open>
  Strings of the program are modelled as \<open>string\<close>; a character outside ASCII stands as
  the bytes of its UTF-8 encoding, which keeps equality, emptiness and concatenation as
  they are in the source.
\<close>

datatype RecordResult = YES | NO

datatype ItemType = BooleanItem | RecordItem

record CheckItem =
  ci_id :: string
  category :: string
  ci_text :: string
  ci_type :: ItemType
  ci_unit :: "string option"
  displayOrder :: int

text \<open>
  An optional property (\<open>value?: string\<close>) is an \<open>option\<close>; \<open>result\<close> is
  \<open>RecordResult | null\<close>, with \<open>None\<close> for \<open>null\<close>.
\<close>

record DailyCheckResult =
  itemId :: string
  result :: "RecordResult option"
  val :: "string option"
  comment :: "string option"
  photo :: "string option"

text \<open>The two-valued fields of the health record: U+306A U+3057 (none) and U+3042 U+308A (present).\<close>

datatype Presence = Nashi | Ari

record HealthRecord =
  temp :: string
  symptom :: Presence
  wound :: Presence
  details :: "string option"

text \<open>
  A day record, with the representation of \<open>checks\<close> left open: the list itself where a
  record is read as a value, the address of the array where the store matters.
\<close>

record 'c DayRecord =
  date :: string
  checks :: 'c
  health :: HealthRecord
  lastUpdated :: string

section \<open>Objects and arrays in a store\<close>

text \<open>
  \<open>saveCheck\<close> and \<open>updateRecord\<close> build new objects with the spread operator, push to an
  array and assign to a property. To tell a fresh object from a mutated one, day records
  and their \<open>checks\<close> arrays live in a store, at addresses. Health records and check
  results are never assigned to after their creation anywhere in the source, so they are
  held by value.
\<close>

type_synonym addr = nat

record heap =
  objs :: "addr \<rightharpoonup> addr DayRecord"
  arrs :: "addr \<rightharpoonup> DailyCheckResult list"
  nextAddr :: addr

definition alloc_obj :: "heap \<Rightarrow> addr DayRecord \<Rightarrow> heap \<times> addr" where
  "alloc_obj h v = (h\<lparr>objs := (objs h)(nextAddr h \<mapsto> v), nextAddr := Suc (nextAddr h)\<rparr>, nextAddr h)"

definition alloc_arr :: "heap \<Rightarrow> DailyCheckResult list \<Rightarrow> heap \<times> addr" where
  "alloc_arr h xs = (h\<lparr>arrs := (arrs h)(nextAddr h \<mapsto> xs), nextAddr := Suc (nextAddr h)\<rparr>, nextAddr h)"

text \<open>\<open>a.push(x)\<close>: the array at \<open>a\<close> is changed in place.\<close>

definition array_push :: "heap \<Rightarrow> addr \<Rightarrow> DailyCheckResult \<Rightarrow> heap option" where
  "array_push h a x =
     (case arrs h a of
        None \<Rightarrow> None
      | Some xs \<Rightarrow> Some (h\<lparr>arrs := (arrs h)(a \<mapsto> xs @ [x])\<rparr>))"

text \<open>The value a reference denotes: the record with its array read out.\<close>

definition read_record :: "heap \<Rightarrow> addr \<Rightarrow> DailyCheckResult list DayRecord option" where
  "read_record h a =
     (case objs h a of
        None \<Rightarrow> None
      | Some r \<Rightarrow>
          (case arrs h (checks r) of
             None \<Rightarrow> None
           | Some cs \<Rightarrow>
               Some \<lparr>date = date r, checks = cs, health = health r, lastUpdated = lastUpdated r\<rparr>))"

text \<open>
  \<open>Record<string, DayRecord>\<close>: an object whose keys keep their insertion order; the
  spread \<open>{ ...prev, [date]: updated }\<close> replaces the value of an existing key where it
  stands and appends a new key, which is \<open>AList.update\<close>.
\<close>

type_synonym record_refs = "(string \<times> addr) list"

definition valid_refs :: "heap \<Rightarrow> record_refs \<Rightarrow> bool" where
  "valid_refs h m = list_all (\<lambda>(k, a). objs h a \<noteq> None) m"

section \<open>Update engine (App.tsx)\<close>

text \<open>
  \<open>getRecordForDate\<close>: the stored record of the date, or a fresh default one. \<open>t\<close> is the
  reading of \<open>new Date().toISOString()\<close>.
\<close>

definition getRecordForDate :: "string \<Rightarrow> record_refs \<Rightarrow> string \<Rightarrow> heap \<Rightarrow> heap \<times> addr" where
  "getRecordForDate t recs d h =
     (case map_of recs d of
        Some a \<Rightarrow> (h, a)
      | None \<Rightarrow>
          (let (h1, cs) = alloc_arr h []
           in alloc_obj h1
                \<lparr>date = d, checks = cs,
                 health = \<lparr>temp = [], symptom = Nashi, wound = Nashi, details = None\<rparr>,
                 lastUpdated = t\<rparr>))"

text \<open>
  \<open>updateRecord\<close>, the function given to \<open>setRecords\<close> applied to the previous map
  \<open>prev\<close>. \<open>recs\<close> is the map of the render the closure comes from, \<open>t0\<close> and \<open>now\<close>
  are the two clock readings. The result is \<open>None\<close> only at a dangling reference.
\<close>

definition updateRecord ::
  "string \<Rightarrow> string \<Rightarrow> record_refs \<Rightarrow> string \<Rightarrow> (heap \<Rightarrow> addr \<Rightarrow> (heap \<times> addr) option) \<Rightarrow>
   heap \<Rightarrow> record_refs \<Rightarrow> (heap \<times> record_refs) option" where
  "updateRecord t0 now recs d updater h prev =
     (let (h1, current) =
            (case map_of prev d of
               Some a \<Rightarrow> (h, a)
             | None \<Rightarrow> getRecordForDate t0 recs d h)
      in case objs h1 current of
           None \<Rightarrow> None
         | Some cur \<Rightarrow>
             (let (h2, copy) = alloc_obj h1 cur
              in case updater h2 copy of
                   None \<Rightarrow> None
                 | Some (h3, updated) \<Rightarrow>
                     (case objs h3 updated of
                        None \<Rightarrow> None
                      | Some u \<Rightarrow>
                          Some (h3\<lparr>objs := (objs h3)(updated \<mapsto> u\<lparr>lastUpdated := now\<rparr>)\<rparr>,
                                AList.update d updated prev))))"

text \<open>
  \<open>saveCheck\<close> of \<open>CheckListView\<close>: \<open>record\<close> is the reference held by the view,
  \<open>onUpdate\<close> the callback it was given. Closing the modal and the toast are left out.
\<close>

definition saveCheck ::
  "(heap \<Rightarrow> addr \<Rightarrow> 'r option) \<Rightarrow> addr \<Rightarrow> DailyCheckResult \<Rightarrow> heap \<Rightarrow> 'r option" where
  "saveCheck onUpdate record res h =
     (case objs h record of
        None \<Rightarrow> None
      | Some r \<Rightarrow>
          (case arrs h (checks r) of
             None \<Rightarrow> None
           | Some cs \<Rightarrow>
               (let (h1, newChecks) = alloc_arr h (filter (\<lambda>c. itemId c \<noteq> itemId res) cs)
                in case array_push h1 newChecks res of
                     None \<Rightarrow> None
                   | Some h2 \<Rightarrow>
                       (let (h3, newRecord) = alloc_obj h2 (r\<lparr>checks := newChecks\<rparr>)
                        in onUpdate h3 newRecord))))"

text \<open>
  The callback \<open>renderContent\<close> passes to the view:
  \<open>(newRecord) => updateRecord(currentDate, () => newRecord)\<close>.
\<close>

definition onUpdate_check ::
  "string \<Rightarrow> string \<Rightarrow> record_refs \<Rightarrow> string \<Rightarrow> record_refs \<Rightarrow> heap \<Rightarrow> addr \<Rightarrow>
   (heap \<times> record_refs) option" where
  "onUpdate_check t0 now recs currentDate prev h newRecord =
     updateRecord t0 now recs currentDate (\<lambda>h' _. Some (h', newRecord)) h prev"

section \<open>Seed configuration (constants.ts)\<close>

text \<open>
  The two categories are U+4E00 U+822C U+7684 U+885B U+751F U+7BA1 U+7406 and
  U+91CD U+8981 U+7BA1 U+7406 U+70B9 followed by \<open> (HACCP)\<close>; the unit is U+2103. Each
  \<open>text_*\<close> is the \<open>text\<close> of the item of that id.
\<close>

definition cat_hygiene :: string where
  "cat_hygiene =
     [CHR 0xE4, CHR 0xB8, CHR 0x80, CHR 0xE8, CHR 0x88, CHR 0xAC, CHR 0xE7, CHR 0x9A,
     CHR 0x84, CHR 0xE8, CHR 0xA1, CHR 0x9B, CHR 0xE7, CHR 0x94, CHR 0x9F, CHR 0xE7,
     CHR 0xAE, CHR 0xA1, CHR 0xE7, CHR 0x90, CHR 0x86]"

definition cat_haccp :: string where
  "cat_haccp =
     [CHR 0xE9, CHR 0x87, CHR 0x8D, CHR 0xE8, CHR 0xA6, CHR 0x81, CHR 0xE7, CHR 0xAE,
     CHR 0xA1, CHR 0xE7, CHR 0x90, CHR 0x86, CHR 0xE7, CHR 0x82, CHR 0xB9] @ '' (HACCP)''"

definition degC :: string where
  "degC = [CHR 0xE2, CHR 0x84, CHR 0x83]"

definition text_c1 :: string where
  "text_c1 =
     [CHR 0xE8, CHR 0xAA, CHR 0xBF, CHR 0xE7, CHR 0x90, CHR 0x86, CHR 0xE5, CHR 0xBE,
     CHR 0x93, CHR 0xE4, CHR 0xBA, CHR 0x8B, CHR 0xE8, CHR 0x80, CHR 0x85, CHR 0xE3,
     CHR 0x81, CHR 0xAE, CHR 0xE5, CHR 0x81, CHR 0xA5, CHR 0xE5, CHR 0xBA, CHR 0xB7,
     CHR 0xE3, CHR 0x83, CHR 0x81, CHR 0xE3, CHR 0x82, CHR 0xA7, CHR 0xE3, CHR 0x83,
     CHR 0x83, CHR 0xE3, CHR 0x82, CHR 0xAF, CHR 0xE3, CHR 0x83, CHR 0xBB, CHR 0xE6,
     CHR 0x9C, CHR 0x8D, CHR 0xE8, CHR 0xA3, CHR 0x85, CHR 0xE3, CHR 0x83, CHR 0xBB,
     CHR 0xE6, CHR 0x89, CHR 0x8B, CHR 0xE6, CHR 0xB4, CHR 0x97, CHR 0xE3, CHR 0x81,
     CHR 0x84]"

definition text_c2 :: string where
  "text_c2 =
     [CHR 0xE8, CHR 0xAA, CHR 0xBF, CHR 0xE7, CHR 0x90, CHR 0x86, CHR 0xE5, CHR 0x99,
     CHR 0xA8, CHR 0xE5, CHR 0x85, CHR 0xB7, CHR 0xEF, CHR 0xBC, CHR 0x88, CHR 0xE5,
     CHR 0x8C, CHR 0x85, CHR 0xE4, CHR 0xB8, CHR 0x81, CHR 0xE3, CHR 0x83, CHR 0xBB,
     CHR 0xE3, CHR 0x81, CHR 0xBE, CHR 0xE3, CHR 0x81, CHR 0xAA, CHR 0xE6, CHR 0x9D,
     CHR 0xBF, CHR 0xEF, CHR 0xBC, CHR 0x89, CHR 0xE3, CHR 0x81, CHR 0xAE, CHR 0xE6,
     CHR 0xB4, CHR 0x97, CHR 0xE6, CHR 0xB5, CHR 0x84, CHR 0xE3, CHR 0x83, CHR 0xBB,
     CHR 0xE6, CHR 0xB6, CHR 0x88, CHR 0xE6, CHR 0xAF, CHR 0x92]"

definition text_c3 :: string where
  "text_c3 =
     [CHR 0xE5, CHR 0x86, CHR 0xB7, CHR 0xE8, CHR 0x94, CHR 0xB5, CHR 0xE5, CHR 0xBA,
     CHR 0xAB, CHR 0xE3, CHR 0x81, CHR 0xAE, CHR 0xE6, CHR 0xB8, CHR 0xA9, CHR 0xE5,
     CHR 0xBA, CHR 0xA6, CHR 0xE7, CHR 0xA2, CHR 0xBA, CHR 0xE8, CHR 0xAA, CHR 0x8D,
     CHR 0xEF, CHR 0xBC, CHR 0x88] @ ''10'' @ [CHR 0xE2, CHR 0x84, CHR 0x83, CHR 0xE4,
     CHR 0xBB, CHR 0xA5, CHR 0xE4, CHR 0xB8, CHR 0x8B, CHR 0xEF, CHR 0xBC, CHR 0x89]"

definition text_c4 :: string where
  "text_c4 =
     [CHR 0xE5, CHR 0x86, CHR 0xB7, CHR 0xE5, CHR 0x87, CHR 0x8D, CHR 0xE5, CHR 0xBA,
     CHR 0xAB, CHR 0xE3, CHR 0x81, CHR 0xAE, CHR 0xE6, CHR 0xB8, CHR 0xA9, CHR 0xE5,
     CHR 0xBA, CHR 0xA6, CHR 0xE7, CHR 0xA2, CHR 0xBA, CHR 0xE8, CHR 0xAA, CHR 0x8D,
     CHR 0xEF, CHR 0xBC, CHR 0x88] @ ''-15'' @ [CHR 0xE2, CHR 0x84, CHR 0x83, CHR 0xE4,
     CHR 0xBB, CHR 0xA5, CHR 0xE4, CHR 0xB8, CHR 0x8B, CHR 0xEF, CHR 0xBC, CHR 0x89]"

definition text_c5 :: string where
  "text_c5 =
     [CHR 0xE8, CHR 0xAA, CHR 0xBF, CHR 0xE7, CHR 0x90, CHR 0x86, CHR 0xE5, CHR 0xA0,
     CHR 0xB4, CHR 0xE3, CHR 0x81, CHR 0xAE, CHR 0xE6, CHR 0xB8, CHR 0x85, CHR 0xE6,
     CHR 0x8E, CHR 0x83, CHR 0xE3, CHR 0x83, CHR 0xBB, CHR 0xE3, CHR 0x82, CHR 0xB4,
     CHR 0xE3, CHR 0x83, CHR 0x9F, CHR 0xE3, CHR 0x81, CHR 0xAE, CHR 0xE5, CHR 0x87,
     CHR 0xA6, CHR 0xE7, CHR 0x90, CHR 0x86]"

definition text_c6 :: string where
  "text_c6 =
     [CHR 0xE3, CHR 0x83, CHR 0x88, CHR 0xE3, CHR 0x82, CHR 0xA4, CHR 0xE3, CHR 0x83,
     CHR 0xAC, CHR 0xE3, CHR 0x81, CHR 0xAE, CHR 0xE6, CHR 0xB4, CHR 0x97, CHR 0xE6,
     CHR 0xB5, CHR 0x84, CHR 0xE3, CHR 0x83, CHR 0xBB, CHR 0xE6, CHR 0xB6, CHR 0x88,
     CHR 0xE6, CHR 0xAF, CHR 0x92]"

definition text_h1 :: string where
  "text_h1 =
     [CHR 0xE9, CHR 0xA3, CHR 0x9F, CHR 0xE6, CHR 0x9D, CHR 0x90, CHR 0xE5, CHR 0x8F,
     CHR 0x97, CHR 0xE5, CHR 0x85, CHR 0xA5, CHR 0xE6, CHR 0x99, CHR 0x82, CHR 0xE3,
     CHR 0x81, CHR 0xAE, CHR 0xE9, CHR 0xAE, CHR 0xAE, CHR 0xE5, CHR 0xBA, CHR 0xA6,
     CHR 0xE3, CHR 0x83, CHR 0xBB, CHR 0xE5, CHR 0x93, CHR 0x81, CHR 0xE6, CHR 0xB8,
     CHR 0xA9, CHR 0xE7, CHR 0xA2, CHR 0xBA, CHR 0xE8, CHR 0xAA, CHR 0x8D]"

definition text_h2 :: string where
  "text_h2 =
     [CHR 0xE5, CHR 0x8A, CHR 0xA0, CHR 0xE7, CHR 0x86, CHR 0xB1, CHR 0xE8, CHR 0xAA,
     CHR 0xBF, CHR 0xE7, CHR 0x90, CHR 0x86, CHR 0xE6, CHR 0x99, CHR 0x82, CHR 0xE3,
     CHR 0x81, CHR 0xAE, CHR 0xE4, CHR 0xB8, CHR 0xAD, CHR 0xE5, CHR 0xBF, CHR 0x83,
     CHR 0xE6, CHR 0xB8, CHR 0xA9, CHR 0xE5, CHR 0xBA, CHR 0xA6, CHR 0xE7, CHR 0xA2,
     CHR 0xBA, CHR 0xE8, CHR 0xAA, CHR 0x8D, CHR 0xEF, CHR 0xBC, CHR 0x88] @ ''75'' @
     [CHR 0xE2, CHR 0x84, CHR 0x83] @ '' 1'' @ [CHR 0xE5, CHR 0x88, CHR 0x86, CHR 0xE4,
     CHR 0xBB, CHR 0xA5, CHR 0xE4, CHR 0xB8, CHR 0x8A, CHR 0xEF, CHR 0xBC, CHR 0x89]"

definition text_h3 :: string where
  "text_h3 =
     [CHR 0xE5, CHR 0x8A, CHR 0xA0, CHR 0xE7, CHR 0x86, CHR 0xB1, CHR 0xE5, CHR 0xBE,
     CHR 0x8C, CHR 0xE3, CHR 0x81, CHR 0xAE, CHR 0xE9, CHR 0xA3, CHR 0x9F, CHR 0xE5,
     CHR 0x93, CHR 0x81, CHR 0xE3, CHR 0x81, CHR 0xAE, CHR 0xE5, CHR 0x86, CHR 0xB7,
     CHR 0xE5, CHR 0x8D, CHR 0xB4, CHR 0xE5, CHR 0x87, CHR 0xA6, CHR 0xE7, CHR 0x90,
     CHR 0x86, CHR 0xEF, CHR 0xBC, CHR 0x88, CHR 0xE9, CHR 0x80, CHR 0x9F, CHR 0xE3,
     CHR 0x82, CHR 0x84, CHR 0xE3, CHR 0x81, CHR 0x8B, CHR 0xE3, CHR 0x81, CHR 0xAB,
     CHR 0xE5, CHR 0x86, CHR 0xB7, CHR 0xE5, CHR 0x8D, CHR 0xB4, CHR 0xEF, CHR 0xBC,
     CHR 0x89]"

definition text_h4 :: string where
  "text_h4 =
     [CHR 0xE5, CHR 0x86, CHR 0x8D, CHR 0xE5, CHR 0x8A, CHR 0xA0, CHR 0xE7, CHR 0x86,
     CHR 0xB1, CHR 0xE6, CHR 0x99, CHR 0x82, CHR 0xE3, CHR 0x81, CHR 0xAE, CHR 0xE4,
     CHR 0xB8, CHR 0xAD, CHR 0xE5, CHR 0xBF, CHR 0x83, CHR 0xE6, CHR 0xB8, CHR 0xA9,
     CHR 0xE5, CHR 0xBA, CHR 0xA6, CHR 0xE7, CHR 0xA2, CHR 0xBA, CHR 0xE8, CHR 0xAA,
     CHR 0x8D]"

definition text_h5 :: string where
  "text_h5 =
     [CHR 0xE6, CHR 0x8F, CHR 0x9A, CHR 0xE3, CHR 0x81, CHR 0x92, CHR 0xE6, CHR 0xB2,
     CHR 0xB9, CHR 0xE3, CHR 0x81, CHR 0xAE, CHR 0xE4, CHR 0xBA, CHR 0xA4, CHR 0xE6,
     CHR 0x8F, CHR 0x9B, CHR 0xE5, CHR 0x9F, CHR 0xBA, CHR 0xE6, CHR 0xBA, CHR 0x96,
     CHR 0xE7, CHR 0xA2, CHR 0xBA, CHR 0xE8, CHR 0xAA, CHR 0x8D]"

definition DEFAULT_CHECKLIST :: "CheckItem list" where
  "DEFAULT_CHECKLIST =
     [\<lparr>ci_id = ''c1'', category = cat_hygiene, ci_text = text_c1, ci_type = BooleanItem,
       ci_unit = None, displayOrder = 1\<rparr>,
      \<lparr>ci_id = ''c2'', category = cat_hygiene, ci_text = text_c2, ci_type = BooleanItem,
       ci_unit = None, displayOrder = 2\<rparr>,
      \<lparr>ci_id = ''c3'', category = cat_hygiene, ci_text = text_c3, ci_type = RecordItem,
       ci_unit = Some degC, displayOrder = 3\<rparr>,
      \<lparr>ci_id = ''c4'', category = cat_hygiene, ci_text = text_c4, ci_type = RecordItem,
       ci_unit = Some degC, displayOrder = 4\<rparr>,
      \<lparr>ci_id = ''c5'', category = cat_hygiene, ci_text = text_c5, ci_type = BooleanItem,
       ci_unit = None, displayOrder = 5\<rparr>,
      \<lparr>ci_id = ''c6'', category = cat_hygiene, ci_text = text_c6, ci_type = BooleanItem,
       ci_unit = None, displayOrder = 6\<rparr>,
      \<lparr>ci_id = ''h1'', category = cat_haccp, ci_text = text_h1, ci_type = BooleanItem,
       ci_unit = None, displayOrder = 7\<rparr>,
      \<lparr>ci_id = ''h2'', category = cat_haccp, ci_text = text_h2, ci_type = BooleanItem,
       ci_unit = None, displayOrder = 8\<rparr>,
      \<lparr>ci_id = ''h3'', category = cat_haccp, ci_text = text_h3, ci_type = BooleanItem,
       ci_unit = None, displayOrder = 9\<rparr>,
      \<lparr>ci_id = ''h4'', category = cat_haccp, ci_text = text_h4, ci_type = BooleanItem,
       ci_unit = None, displayOrder = 10\<rparr>,
      \<lparr>ci_id = ''h5'', category = cat_haccp, ci_text = text_h5, ci_type = BooleanItem,
       ci_unit = None, displayOrder = 11\<rparr>]"

section \<open>Numbers\<close>

text \<open>
  A number of JavaScript is an IEEE 754 double: not-a-number, an infinity (\<open>True\<close> for
  the negative one) or a finite double, given by the rational it is. The two zeros are
  one value here; no expression of this program tells them apart.
\<close>

datatype double = DNaN | DInfinity bool | DFinite rat

text \<open>The exponent of a positive rational: the \<open>e\<close> with \<open>2 ^ e \<le> x < 2 ^ (e + 1)\<close>.\<close>

definition ilog2 :: "rat \<Rightarrow> int" where
  "ilog2 x = (if 1 \<le> x then bitlen \<lfloor>x\<rfloor> - 1 else - bitlen (\<lceil>1 / x\<rceil> - 1))"

definition round_half_even :: "rat \<Rightarrow> int" where
  "round_half_even y =
     (let f = \<lfloor>y\<rfloor>; r = y - of_int f
      in if r < 1 / 2 then f else if 1 / 2 < r then f + 1 else if even f then f else f + 1)"

text \<open>
  Rounding to the nearest double, ties to even: a significand of 53 bits, the exponent not
  below that of the subnormal numbers and not bounded above.
\<close>

definition fl :: "rat \<Rightarrow> rat" where
  "fl x =
     (if x = 0 then 0
      else
        (let e = max (ilog2 \<bar>x\<bar>) (- 1022);
             q = 2 powi (e - 52)
         in sgn x * of_int (round_half_even (\<bar>x\<bar> / q)) * q))"

text \<open>The double a real is read as: a rounded value beyond the largest double is infinite.\<close>

definition to_double :: "rat \<Rightarrow> double" where
  "to_double x = (if 2 ^ 1024 \<le> \<bar>fl x\<bar> then DInfinity (x < 0) else DFinite (fl x))"

definition is_double :: "rat \<Rightarrow> bool" where
  "is_double x = (to_double x = DFinite x)"

section \<open>JavaScript values and JSON texts\<close>

text \<open>
  The values \<open>JSON.parse\<close> returns and \<open>JSON.stringify\<close> reads. An object is the list
  of its properties in the order in which JavaScript enumerates them, its keys pairwise
  distinct (\<open>proper\<close> below). For keys that are no array indices this is the order of
  their creation. Array indices, which JavaScript enumerates first and in ascending order,
  are no keys of this program (its keys are property names, dates and column labels); the
  place \<open>JSON.parse\<close> gives to such a member of a document is not modelled.
\<close>

datatype jsval =
    VUndefined
  | VNull
  | VBool bool
  | VNum double
  | VStr string
  | VArr "jsval list"
  | VObj "(string \<times> jsval) list"

text \<open>
  A JSON document: what a JSON text denotes. A numeral denotes a rational; the members of
  an object are listed as written, a name possibly more than once.
\<close>

datatype json =
    JNull
  | JBool bool
  | JNum rat
  | JStr string
  | JArr "json list"
  | JObj "(string \<times> json) list"

text \<open>
  A string that is read as JSON is the empty string, a JSON text (given by the document it
  denotes) or any other string.
\<close>

datatype file_text = EmptyText | Doc json | Malformed

datatype exn = SyntaxError | TypeError | Error string

text \<open>
  The object \<open>JSON.parse\<close> builds from the members of a JSON object: each member is
  assigned in turn, so a name written more than once keeps the place of its first
  occurrence and the value of its last.
\<close>

definition members_to_object :: "(string \<times> jsval) list \<Rightarrow> (string \<times> jsval) list" where
  "members_to_object ps = fold (\<lambda>p obj. AList.update (fst p) (snd p) obj) ps []"

primrec of_json :: "json \<Rightarrow> jsval" where
  "of_json JNull = VNull"
| "of_json (JBool b) = VBool b"
| "of_json (JNum q) = VNum (to_double q)"
| "of_json (JStr s) = VStr s"
| "of_json (JArr xs) = VArr (map of_json xs)"
| "of_json (JObj ps) = VObj (members_to_object (map (map_prod id of_json) ps))"

text \<open>
  \<open>JSON.stringify\<close> writes \<open>null\<close> for an array element that is \<open>undefined\<close>, leaves
  out a property whose value is \<open>undefined\<close>, and returns \<open>undefined\<close> (here \<open>None\<close>)
  for the value \<open>undefined\<close> itself. It writes \<open>null\<close> for a number that is not finite.
  For a finite number it writes the shortest numeral that is read back as that number;
  the numeral stands here by the value of the number itself, which is read back alike.
\<close>

definition json_element :: "json option \<Rightarrow> json" where
  "json_element j = (case j of None \<Rightarrow> JNull | Some d \<Rightarrow> d)"

fun json_members :: "(string \<times> json option) list \<Rightarrow> (string \<times> json) list" where
  "json_members [] = []"
| "json_members ((k, None) # ps) = json_members ps"
| "json_members ((k, Some d) # ps) = (k, d) # json_members ps"

definition json_number :: "double \<Rightarrow> json" where
  "json_number n = (case n of DFinite q \<Rightarrow> JNum q | _ \<Rightarrow> JNull)"

primrec to_json :: "jsval \<Rightarrow> json option" where
  "to_json VUndefined = None"
| "to_json VNull = Some JNull"
| "to_json (VBool b) = Some (JBool b)"
| "to_json (VNum n) = Some (json_number n)"
| "to_json (VStr s) = Some (JStr s)"
| "to_json (VArr xs) = Some (JArr (map json_element (map to_json xs)))"
| "to_json (VObj ps) = Some (JObj (json_members (map (map_prod id to_json) ps)))"

definition JSON_stringify :: "jsval \<Rightarrow> file_text option" where
  "JSON_stringify v = map_option Doc (to_json v)"

definition JSON_parse :: "file_text \<Rightarrow> exn + jsval" where
  "JSON_parse t = (case t of Doc d \<Rightarrow> Inr (of_json d) | _ \<Rightarrow> Inl SyntaxError)"

text \<open>
  A value as JavaScript has it: the keys of every object pairwise distinct, every finite
  number a double.
\<close>

definition proper_number :: "double \<Rightarrow> bool" where
  "proper_number n = (case n of DFinite q \<Rightarrow> is_double q | _ \<Rightarrow> True)"

primrec proper :: "jsval \<Rightarrow> bool" where
  "proper VUndefined = True"
| "proper VNull = True"
| "proper (VBool b) = True"
| "proper (VNum n) = proper_number n"
| "proper (VStr s) = True"
| "proper (VArr xs) = list_all id (map proper xs)"
| "proper (VObj ps) = (distinct (map fst ps) \<and> list_all snd (map (map_prod id proper) ps))"






text \<open>
  Reading a property \<open>v.k\<close>: a \<open>TypeError\<close> on \<open>null\<close> and \<open>undefined\<close>, the value of
  the key on an object that has it, \<open>undefined\<close> otherwise (the keys read in this program,
  \<open>config\<close> and \<open>records\<close>, are no property of an array, a string, a number or a boolean).
\<close>

definition get_prop :: "jsval \<Rightarrow> string \<Rightarrow> exn + jsval" where
  "get_prop v k =
     (case v of
        VUndefined \<Rightarrow> Inl TypeError
      | VNull \<Rightarrow> Inl TypeError
      | VObj ps \<Rightarrow> Inr (case map_of ps k of None \<Rightarrow> VUndefined | Some x \<Rightarrow> x)
      | _ \<Rightarrow> Inr VUndefined)"

definition has_field :: "jsval \<Rightarrow> string \<Rightarrow> bool" where
  "has_field v k = (case v of VObj ps \<Rightarrow> map_of ps k \<noteq> None | _ \<Rightarrow> False)"

text \<open>Truthiness, as an \<open>if\<close> and \<open>&&\<close> test it.\<close>

definition truthy_number :: "double \<Rightarrow> bool" where
  "truthy_number n = (case n of DNaN \<Rightarrow> False | DInfinity b \<Rightarrow> True | DFinite q \<Rightarrow> q \<noteq> 0)"

definition truthy :: "jsval \<Rightarrow> bool" where
  "truthy v =
     (case v of
        VUndefined \<Rightarrow> False
      | VNull \<Rightarrow> False
      | VBool b \<Rightarrow> b
      | VNum n \<Rightarrow> truthy_number n
      | VStr s \<Rightarrow> s \<noteq> []
      | VArr xs \<Rightarrow> True
      | VObj ps \<Rightarrow> True)"


section \<open>The state as JavaScript values\<close>

text \<open>
  The objects the program builds, property by property as its object literals list them.
  An item is written as in \<open>DEFAULT_CHECKLIST\<close> and \<open>handleAddItem\<close>: \<open>unit\<close> is a
  property only of the items that have one.
\<close>

definition opt_prop :: "string \<Rightarrow> string option \<Rightarrow> (string \<times> jsval) list" where
  "opt_prop k v = (case v of None \<Rightarrow> [] | Some s \<Rightarrow> [(k, VStr s)])"

definition ItemType_to_js :: "ItemType \<Rightarrow> jsval" where
  "ItemType_to_js t = (case t of BooleanItem \<Rightarrow> VStr ''boolean'' | RecordItem \<Rightarrow> VStr ''record'')"

definition CheckItem_to_js :: "CheckItem \<Rightarrow> jsval" where
  "CheckItem_to_js i =
     VObj ([(''id'', VStr (ci_id i)), (''category'', VStr (category i)),
            (''text'', VStr (ci_text i)), (''type'', ItemType_to_js (ci_type i))]
           @ opt_prop ''unit'' (ci_unit i)
           @ [(''displayOrder'', VNum (DFinite (of_int (displayOrder i))))])"

definition config_to_js :: "CheckItem list \<Rightarrow> jsval" where
  "config_to_js cfg = VArr (map CheckItem_to_js cfg)"

definition RecordResult_to_js :: "RecordResult option \<Rightarrow> jsval" where
  "RecordResult_to_js r =
     (case r of None \<Rightarrow> VNull | Some YES \<Rightarrow> VStr ''YES'' | Some NO \<Rightarrow> VStr ''NO'')"

text \<open>
  \<open>handleSave\<close> of \<open>CheckModal\<close>: nothing without a result; otherwise the object handed
  to \<open>onSave\<close>. \<open>result\<close>, \<open>value\<close>, \<open>comment\<close> and \<open>photo\<close> are the states of the
  modal: \<open>value\<close> and \<open>comment\<close> are strings, \<open>photo\<close> is \<open>null\<close> (here \<open>None\<close>) or
  the encoded image. The property \<open>value\<close> holds \<open>undefined\<close> for an item that is not of
  type \<open>record\<close>.
\<close>

definition handleSave ::
  "CheckItem \<Rightarrow> RecordResult option \<Rightarrow> string \<Rightarrow> string \<Rightarrow> string option \<Rightarrow> jsval option" where
  "handleSave item result_state value_state comment_state photo_state =
     (case result_state of
        None \<Rightarrow> None
      | Some r \<Rightarrow>
          Some (VObj [(''itemId'', VStr (ci_id item)),
                      (''result'', RecordResult_to_js (Some r)),
                      (''value'', if ci_type item = RecordItem then VStr value_state else VUndefined),
                      (''comment'', VStr comment_state),
                      (''photo'', case photo_state of None \<Rightarrow> VNull | Some p \<Rightarrow> VStr p)]))"

definition nashi :: string where
  "nashi = [CHR 0xE3, CHR 0x81, CHR 0xAA, CHR 0xE3, CHR 0x81, CHR 0x97]"

definition ari :: string where
  "ari = [CHR 0xE3, CHR 0x81, CHR 0x82, CHR 0xE3, CHR 0x82, CHR 0x8A]"

definition Presence_str :: "Presence \<Rightarrow> string" where
  "Presence_str p = (case p of Nashi \<Rightarrow> nashi | Ari \<Rightarrow> ari)"

text \<open>
  A health record starts as \<open>{ temp: '', symptom, wound }\<close> in \<open>getRecordForDate\<close> and
  gets \<open>details\<close> as a fourth property when that field is first edited.
\<close>

definition HealthRecord_to_js :: "HealthRecord \<Rightarrow> jsval" where
  "HealthRecord_to_js h =
     VObj ([(''temp'', VStr (temp h)), (''symptom'', VStr (Presence_str (symptom h))),
            (''wound'', VStr (Presence_str (wound h)))]
           @ opt_prop ''details'' (details h))"

text \<open>
  A day record, its checks the objects \<open>handleSave\<close> made (or whatever a restored file
  held): \<open>{ date, checks, health, lastUpdated }\<close>, the order that the spread copies of
  \<open>saveCheck\<close>, \<open>handleChange\<close> and \<open>updateRecord\<close> keep.
\<close>

definition DayRecord_to_js :: "jsval list DayRecord \<Rightarrow> jsval" where
  "DayRecord_to_js r =
     VObj [(''date'', VStr (date r)),
           (''checks'', VArr (checks r)),
           (''health'', HealthRecord_to_js (health r)),
           (''lastUpdated'', VStr (lastUpdated r))]"

section \<open>Backup export and import (utils)\<close>


text \<open>\<open>importBackupJSON\<close>: the promise resolves with the parsed value or rejects.\<close>

definition importBackupJSON :: "file_text \<Rightarrow> exn + jsval" where
  "importBackupJSON file = JSON_parse file"


section \<open>Application state, load and restore (App.tsx)\<close>

text \<open>
  The state of \<open>App\<close>. \<open>setConfig\<close> and \<open>setRecords\<close> take whatever value they are
  given, so both fields hold JavaScript values.
\<close>

record App =
  config :: jsval
  records :: jsval
  isLoading :: bool

definition initial_state :: App where
  "initial_state = \<lparr>config = config_to_js DEFAULT_CHECKLIST, records = VObj [], isLoading = True\<rparr>"



datatype toast_type = ToastSuccess | ToastError

type_synonym toast = "string \<times> toast_type"

text \<open>
  The three messages of \<open>handleRestore\<close>: "restored" (U+5FA9 U+5143 U+3057 U+307E U+3057
  U+305F), "invalid backup file" (U+7121 U+52B9 U+306A ... U+3067 U+3059) and "reading
  failed" (U+8AAD U+307F U+8FBC U+307F U+306B U+5931 U+6557 U+3057 U+307E U+3057 U+305F).
\<close>

definition msg_restored :: string where
  "msg_restored =
     [CHR 0xE5, CHR 0xBE, CHR 0xA9, CHR 0xE5, CHR 0x85, CHR 0x83, CHR 0xE3, CHR 0x81,
      CHR 0x97, CHR 0xE3, CHR 0x81, CHR 0xBE, CHR 0xE3, CHR 0x81, CHR 0x97, CHR 0xE3,
      CHR 0x81, CHR 0x9F]"

definition msg_invalid_backup :: string where
  "msg_invalid_backup =
     [CHR 0xE7, CHR 0x84, CHR 0xA1, CHR 0xE5, CHR 0x8A, CHR 0xB9, CHR 0xE3, CHR 0x81,
      CHR 0xAA, CHR 0xE3, CHR 0x83, CHR 0x90, CHR 0xE3, CHR 0x83, CHR 0x83, CHR 0xE3,
      CHR 0x82, CHR 0xAF, CHR 0xE3, CHR 0x82, CHR 0xA2, CHR 0xE3, CHR 0x83, CHR 0x83,
      CHR 0xE3, CHR 0x83, CHR 0x97, CHR 0xE3, CHR 0x83, CHR 0x95, CHR 0xE3, CHR 0x82,
      CHR 0xA1, CHR 0xE3, CHR 0x82, CHR 0xA4, CHR 0xE3, CHR 0x83, CHR 0xAB, CHR 0xE3,
      CHR 0x81, CHR 0xA7, CHR 0xE3, CHR 0x81, CHR 0x99]"

definition msg_read_failed :: string where
  "msg_read_failed =
     [CHR 0xE8, CHR 0xAA, CHR 0xAD, CHR 0xE3, CHR 0x81, CHR 0xBF, CHR 0xE8, CHR 0xBE,
      CHR 0xBC, CHR 0xE3, CHR 0x81, CHR 0xBF, CHR 0xE3, CHR 0x81, CHR 0xAB, CHR 0xE5,
      CHR 0xA4, CHR 0xB1, CHR 0xE6, CHR 0x95, CHR 0x97, CHR 0xE3, CHR 0x81, CHR 0x97,
      CHR 0xE3, CHR 0x81, CHR 0xBE, CHR 0xE3, CHR 0x81, CHR 0x97, CHR 0xE3, CHR 0x81,
      CHR 0x9F]"

text \<open>
  The \<open>try\<close> block of \<open>handleRestore\<close> on the text of the chosen file; \<open>confirmed\<close> is
  the answer \<open>window.confirm\<close> returns. The result is the state and toast reached, and the
  exception if one was thrown.
\<close>

definition handleRestore_try :: "bool \<Rightarrow> file_text \<Rightarrow> App \<Rightarrow> (App \<times> toast option) \<times> exn option" where
  "handleRestore_try confirmed file s =
     (case importBackupJSON file of
        Inl e \<Rightarrow> ((s, None), Some e)
      | Inr data \<Rightarrow>
          (case get_prop data ''config'' of
             Inl e \<Rightarrow> ((s, None), Some e)
           | Inr c \<Rightarrow>
               if \<not> truthy c then ((s, Some (msg_invalid_backup, ToastError)), None)
               else
                 (case get_prop data ''records'' of
                    Inl e \<Rightarrow> ((s, None), Some e)
                  | Inr r \<Rightarrow>
                      if \<not> truthy r then ((s, Some (msg_invalid_backup, ToastError)), None)
                      else if confirmed
                      then ((s\<lparr>config := c, records := r\<rparr>, Some (msg_restored, ToastSuccess)), None)
                      else ((s, None), None))))"

text \<open>
  \<open>handleRestore\<close>: nothing happens without a file; an exception of the \<open>try\<close> block is
  answered by the toast of \<open>catch\<close>.
\<close>

definition handleRestore :: "bool \<Rightarrow> file_text option \<Rightarrow> App \<Rightarrow> App \<times> toast option" where
  "handleRestore confirmed file s =
     (case file of
        None \<Rightarrow> (s, None)
      | Some t \<Rightarrow>
          (case handleRestore_try confirmed t s of
             (r, None) \<Rightarrow> r
           | ((s', _), Some e) \<Rightarrow> (s', Some (msg_read_failed, ToastError))))"

section \<open>Progress of the day (CheckListView)\<close>

text \<open>
  \<open>completedCount\<close>: the configured items whose first check of that id exists and has a
  truthy \<open>result\<close> (\<open>YES\<close> and \<open>NO\<close> are non-empty strings, \<open>null\<close> is falsy).
\<close>

definition completedCount :: "CheckItem list \<Rightarrow> DailyCheckResult list DayRecord \<Rightarrow> nat" where
  "completedCount cfg record =
     length (filter (\<lambda>item.
        case List.find (\<lambda>r. itemId r = ci_id item) (checks record) of
          None \<Rightarrow> False
        | Some res \<Rightarrow> result res \<noteq> None) cfg)"

text \<open>
  The number \<open>Math.round\<close> returns: an integer, or \<open>NaN\<close>. \<open>Math.round\<close> rounds a half
  upwards.
\<close>

datatype js_number = NaN | Finite int

definition Math_round :: "rat \<Rightarrow> int" where
  "Math_round x = \<lfloor>x + 1 / 2\<rfloor>"

text \<open>
  \<open>Math.round((completedCount / config.length) * 100)\<close>. Of an empty configuration both
  counts are 0, \<open>0 / 0\<close> is \<open>NaN\<close>, and so are its product and its rounding. Otherwise
  the quotient and the product are each rounded to a double.
\<close>

definition progress :: "CheckItem list \<Rightarrow> DailyCheckResult list DayRecord \<Rightarrow> js_number" where
  "progress cfg record =
     (if length cfg = 0 then NaN
      else Finite (Math_round
             (fl (fl (of_nat (completedCount cfg record) / of_nat (length cfg)) * 100))))"

text \<open>
  The progress as the specification words it, for comparison: the rounding of the exact
  percentage, and 0 of an empty configuration.
\<close>

definition progress_as_specified :: "CheckItem list \<Rightarrow> DailyCheckResult list DayRecord \<Rightarrow> int" where
  "progress_as_specified cfg record =
     (if length cfg = 0 then 0
      else Math_round (100 * of_nat (completedCount cfg record) / of_nat (length cfg)))"

section \<open>Tabular export (utils)\<close>

text \<open>\<open>check?.value\<close> as a condition: defined and not the empty string.\<close>

definition truthy_string :: "string option \<Rightarrow> bool" where
  "truthy_string v = (case v of None \<Rightarrow> False | Some s \<Rightarrow> s \<noteq> [])"

text \<open>\<open>x || ''\<close> and the interpolation of an optional string known to be truthy.\<close>

definition or_empty :: "string option \<Rightarrow> string" where
  "or_empty v = (case v of None \<Rightarrow> [] | Some s \<Rightarrow> s)"

text \<open>The marks U+826F (good) and U+5426 (not good), and the word U+30E1 U+30E2 (memo).\<close>

definition mark_yes :: string where
  "mark_yes = [CHR 0xE8, CHR 0x89, CHR 0xAF]"

definition mark_no :: string where
  "mark_no = [CHR 0xE5, CHR 0x90, CHR 0xA6]"

definition memo :: string where
  "memo = [CHR 0xE3, CHR 0x83, CHR 0xA1, CHR 0xE3, CHR 0x83, CHR 0xA2]"

definition resultKey :: "CheckItem \<Rightarrow> string" where
  "resultKey item = ''['' @ category item @ ''] '' @ ci_text item"

text \<open>The string the body of \<open>checklistConfig.forEach\<close> builds for an item.\<close>

definition valueStr :: "CheckItem \<Rightarrow> DailyCheckResult list DayRecord \<Rightarrow> string" where
  "valueStr item record =
     (let check = List.find (\<lambda>c. itemId c = ci_id item) (checks record);
          s0 = (case check of
                  None \<Rightarrow> []
                | Some c \<Rightarrow>
                    (case result c of
                       Some YES \<Rightarrow> mark_yes
                     | Some NO \<Rightarrow> mark_no
                     | None \<Rightarrow> []));
          s1 = (case check of
                  None \<Rightarrow> s0
                | Some c \<Rightarrow>
                    if truthy_string (val c)
                    then s0 @ '' ('' @ or_empty (val c) @ or_empty (ci_unit item) @ '')''
                    else s0);
          s2 = (case check of
                  None \<Rightarrow> s1
                | Some c \<Rightarrow>
                    if truthy_string (comment c)
                    then s1 @ '' ['' @ memo @ '': '' @ or_empty (comment c) @ '']''
                    else s1)
      in s2)"

text \<open>
  The cell as the specification words it, for comparison: the mark of the result; the
  value and unit appended if the item is of type \<open>record\<close> and a value is present; the
  memo appended if a comment is present.
\<close>

definition cell_as_specified :: "CheckItem \<Rightarrow> DailyCheckResult list DayRecord \<Rightarrow> string" where
  "cell_as_specified item record =
     (case List.find (\<lambda>c. itemId c = ci_id item) (checks record) of
        None \<Rightarrow> []
      | Some c \<Rightarrow>
          (case result c of Some YES \<Rightarrow> mark_yes | Some NO \<Rightarrow> mark_no | None \<Rightarrow> [])
          @ (if ci_type item = RecordItem \<and> truthy_string (val c)
             then '' ('' @ or_empty (val c) @ or_empty (ci_unit item) @ '')'' else [])
          @ (if truthy_string (comment c)
             then '' ['' @ memo @ '': '' @ or_empty (comment c) @ '']'' else []))"

text \<open>
  The six fixed column names: date (U+65E5 U+4ED8), staff temperature, staff symptom,
  staff wound, staff remarks (each U+30B9 U+30BF U+30C3 U+30D5 and one or two more
  characters) and last update (U+6700 U+7D42 U+66F4 U+65B0).
\<close>

definition col_date :: string where
  "col_date = [CHR 0xE6, CHR 0x97, CHR 0xA5, CHR 0xE4, CHR 0xBB, CHR 0x98]"

definition col_staff :: string where
  "col_staff =
     [CHR 0xE3, CHR 0x82, CHR 0xB9, CHR 0xE3, CHR 0x82, CHR 0xBF, CHR 0xE3, CHR 0x83,
      CHR 0x83, CHR 0xE3, CHR 0x83, CHR 0x95]"

definition col_temp :: string where
  "col_temp = col_staff @ [CHR 0xE4, CHR 0xBD, CHR 0x93, CHR 0xE6, CHR 0xB8, CHR 0xA9]"

definition col_symptom :: string where
  "col_symptom = col_staff @ [CHR 0xE7, CHR 0x97, CHR 0x87, CHR 0xE7, CHR 0x8A, CHR 0xB6]"

definition col_wound :: string where
  "col_wound = col_staff @ [CHR 0xE5, CHR 0x82, CHR 0xB7]"

definition col_details :: string where
  "col_details = col_staff @ [CHR 0xE5, CHR 0x82, CHR 0x99, CHR 0xE8, CHR 0x80, CHR 0x83]"

definition col_lastUpdated :: string where
  "col_lastUpdated =
     [CHR 0xE6, CHR 0x9C, CHR 0x80, CHR 0xE7, CHR 0xB5, CHR 0x82, CHR 0xE6, CHR 0x9B,
      CHR 0xB4, CHR 0xE6, CHR 0x96, CHR 0xB0]"

text \<open>
  A row is an object from column names to strings, its keys in insertion order;
  \<open>row[k] = v\<close> is \<open>AList.update\<close>. \<open>toLocaleString\<close> stands for
  \<open>new Date(s).toLocaleString('ja-JP')\<close>.
\<close>

type_synonym row = "(string \<times> string) list"

definition fixed_columns :: "(string \<Rightarrow> string) \<Rightarrow> DailyCheckResult list DayRecord \<Rightarrow> row" where
  "fixed_columns toLocaleString record =
     [(col_date, date record),
      (col_temp, temp (health record)),
      (col_symptom, Presence_str (symptom (health record))),
      (col_wound, Presence_str (wound (health record))),
      (col_details, or_empty (details (health record))),
      (col_lastUpdated, toLocaleString (lastUpdated record))]"

definition exportRow ::
  "(string \<Rightarrow> string) \<Rightarrow> CheckItem list \<Rightarrow> DailyCheckResult list DayRecord \<Rightarrow> row" where
  "exportRow toLocaleString cfg record =
     fold (\<lambda>item r. AList.update (resultKey item) (valueStr item record) r)
       cfg (fixed_columns toLocaleString record)"

text \<open>
  \<open>Array.prototype.sort\<close> with a comparator: stable, an element standing before another
  one when the comparator is negative. Insertion from the right keeps equal elements in
  their order.
\<close>

fun insort_cmp :: "('a \<Rightarrow> 'a \<Rightarrow> int) \<Rightarrow> 'a \<Rightarrow> 'a list \<Rightarrow> 'a list" where
  "insort_cmp cmp x [] = [x]"
| "insort_cmp cmp x (y # ys) = (if cmp x y \<le> 0 then x # y # ys else y # insort_cmp cmp x ys)"

definition js_sort :: "('a \<Rightarrow> 'a \<Rightarrow> int) \<Rightarrow> 'a list \<Rightarrow> 'a list" where
  "js_sort cmp xs = foldr (insort_cmp cmp) xs []"

text \<open>
  The rows \<open>exportDataToExcel\<close> hands to \<open>json_to_sheet\<close>. \<open>localeCompare\<close> is the
  collation of the platform; \<open>Object.values\<close> lists the records in the order of their keys.
\<close>

definition exportRows ::
  "(string \<Rightarrow> string \<Rightarrow> int) \<Rightarrow> (string \<Rightarrow> string) \<Rightarrow>
   (string \<times> DailyCheckResult list DayRecord) list \<Rightarrow> CheckItem list \<Rightarrow> row list" where
  "exportRows localeCompare toLocaleString recs cfg =
     map (exportRow toLocaleString cfg)
       (js_sort (\<lambda>a b. localeCompare (date b) (date a)) (map snd recs))"

definition exportDataToExcel ::
  "bool \<Rightarrow> (string \<Rightarrow> string \<Rightarrow> int) \<Rightarrow> (string \<Rightarrow> string) \<Rightarrow>
   (string \<times> DailyCheckResult list DayRecord) list \<Rightarrow> CheckItem list \<Rightarrow> exn + row list" where
  "exportDataToExcel xlsx_loaded localeCompare toLocaleString recs cfg =
     (if \<not> xlsx_loaded then Inl (Error ''Excel library not loaded'')
      else Inr (exportRows localeCompare toLocaleString recs cfg))"

section \<open>Editing the configuration (SettingsView)\<close>

text \<open>The decimal digits of a number, as the template literal writes \<open>Date.now()\<close>.\<close>

definition digit_char :: "nat \<Rightarrow> char" where
  "digit_char d = char_of (48 + d)"

fun show_nat :: "nat \<Rightarrow> string" where
  "show_nat n = (if n < 10 then [digit_char n] else show_nat (n div 10) @ [digit_char (n mod 10)])"

declare show_nat.simps [simp del]

definition show_int :: "int \<Rightarrow> string" where
  "show_int i = (if i < 0 then CHR ''-'' # show_nat (nat (- i)) else show_nat (nat i))"

text \<open>The category U+305D U+306E U+4ED6 (other) and the text "new check item" of an added item.\<close>

definition cat_other :: string where
  "cat_other =
     [CHR 0xE3, CHR 0x81, CHR 0x9D, CHR 0xE3, CHR 0x81, CHR 0xAE, CHR 0xE4, CHR 0xBB,
      CHR 0x96]"

definition text_new_item :: string where
  "text_new_item =
     [CHR 0xE6, CHR 0x96, CHR 0xB0, CHR 0xE3, CHR 0x81, CHR 0x97, CHR 0xE3, CHR 0x81,
      CHR 0x84, CHR 0xE3, CHR 0x83, CHR 0x81, CHR 0xE3, CHR 0x82, CHR 0xA7, CHR 0xE3,
      CHR 0x83, CHR 0x83, CHR 0xE3, CHR 0x82, CHR 0xAF, CHR 0xE9, CHR 0xA0, CHR 0x85,
      CHR 0xE7, CHR 0x9B, CHR 0xAE]"

text \<open>\<open>handleAddItem\<close>; \<open>now\<close> is the reading of \<open>Date.now()\<close>.\<close>

definition handleAddItem :: "int \<Rightarrow> CheckItem list \<Rightarrow> CheckItem list" where
  "handleAddItem now cfg =
     cfg @ [\<lparr>ci_id = ''custom_'' @ show_int now, category = cat_other, ci_text = text_new_item,
             ci_type = BooleanItem, ci_unit = None, displayOrder = int (length cfg) + 1\<rparr>]"

text \<open>\<open>handleDeleteItem\<close>; \<open>confirmed\<close> is the answer of \<open>window.confirm\<close>.\<close>

definition handleDeleteItem :: "bool \<Rightarrow> string \<Rightarrow> CheckItem list \<Rightarrow> CheckItem list" where
  "handleDeleteItem confirmed i cfg = (if confirmed then filter (\<lambda>c. ci_id c \<noteq> i) cfg else cfg)"

text \<open>
  The \<open>onChange\<close> of the text input of the item at \<open>idx\<close>. The index is one of the list
  the inputs are rendered from; at any other index the assignment would throw and the
  configuration stay as it is.
\<close>

definition editText :: "nat \<Rightarrow> string \<Rightarrow> CheckItem list \<Rightarrow> CheckItem list" where
  "editText idx v cfg = (if idx < length cfg then cfg[idx := (cfg ! idx)\<lparr>ci_text := v\<rparr>] else cfg)"

datatype config_op = AddItem int | EditText nat string | DeleteItem bool string

fun apply_config_op :: "config_op \<Rightarrow> CheckItem list \<Rightarrow> CheckItem list" where
  "apply_config_op (AddItem now) cfg = handleAddItem now cfg"
| "apply_config_op (EditText idx v) cfg = editText idx v cfg"
| "apply_config_op (DeleteItem confirmed i) cfg = handleDeleteItem confirmed i cfg"

definition run_config_ops :: "config_op list \<Rightarrow> CheckItem list \<Rightarrow> CheckItem list" where
  "run_config_ops ops cfg = fold apply_config_op ops cfg"

text \<open>The clock readings of the additions of a sequence of operations.\<close>

fun add_times :: "config_op list \<Rightarrow> int list" where
  "add_times [] = []"
| "add_times (AddItem t # ops) = t # add_times ops"
| "add_times (_ # ops) = add_times ops"

section \<open>Debounced save (App.tsx)\<close>

text \<open>
  The save effect over a clock in milliseconds. \<open>timers\<close> are the timeouts set and
  neither fired nor cleared, oldest first: the handle \<open>setTimeout\<close> returned, the time
  the timeout is due and the state its callback closes over. \<open>cleanup\<close> is the handle
  the cleanup function of the last run of the effect holds, if that run returned one.
  \<open>writes\<close> lists the values given to \<open>localStorage.setItem\<close>, oldest first; a write
  the store rejects is answered by a toast and counts as a write here.
\<close>

record save_sys =
  timers :: "(nat \<times> nat \<times> App) list"
  nextTimer :: nat
  cleanup :: "nat option"
  writes :: "file_text list"

text \<open>The mounted component before its first effect.\<close>

definition mounted :: save_sys where
  "mounted = \<lparr>timers = [], nextTimer = 0, cleanup = None, writes = []\<rparr>"

definition setTimeout :: "App \<Rightarrow> nat \<Rightarrow> save_sys \<Rightarrow> save_sys \<times> nat" where
  "setTimeout s due sys =
     (sys\<lparr>timers := timers sys @ [(nextTimer sys, due, s)], nextTimer := Suc (nextTimer sys)\<rparr>,
      nextTimer sys)"

definition clearTimeout :: "nat \<Rightarrow> save_sys \<Rightarrow> save_sys" where
  "clearTimeout h sys = sys\<lparr>timers := filter (\<lambda>tm. fst tm \<noteq> h) (timers sys)\<rparr>"

text \<open>
  The value written: \<open>JSON.stringify({ config, records })\<close>, which is a string for
  every object.
\<close>

definition persisted :: "App \<Rightarrow> file_text" where
  "persisted s =
     (case JSON_stringify (VObj [(''config'', config s), (''records'', records s)]) of
        None \<Rightarrow> Malformed
      | Some t \<Rightarrow> t)"

text \<open>The callback of the timeout, run with the state \<open>s\<close> it closes over.\<close>

definition timer_callback :: "App \<Rightarrow> save_sys \<Rightarrow> save_sys" where
  "timer_callback s sys = sys\<lparr>writes := writes sys @ [persisted s]\<rparr>"

text \<open>
  A render at time \<open>now\<close> in which \<open>config\<close>, \<open>records\<close> or \<open>isLoading\<close> has changed:
  the cleanup of the previous run, if it returned one, clears its timeout; then the effect
  runs on the new state \<open>s\<close>, returning no cleanup while loading.
\<close>

definition save_effect :: "nat \<Rightarrow> App \<Rightarrow> save_sys \<Rightarrow> save_sys" where
  "save_effect now s sys =
     (let sys1 = (case cleanup sys of None \<Rightarrow> sys | Some h \<Rightarrow> clearTimeout h sys)
      in if isLoading s then sys1\<lparr>cleanup := None\<rparr>
         else
           (let (sys2, timer) = setTimeout s (now + 500) sys1
            in sys2\<lparr>cleanup := Some timer\<rparr>))"

text \<open>
  The clock reaches \<open>t\<close>: the timeouts due by then run their callbacks, the earlier due
  first, and are pending no more.
\<close>

definition elapse :: "nat \<Rightarrow> save_sys \<Rightarrow> save_sys" where
  "elapse t sys =
     fold (\<lambda>tm. timer_callback (snd (snd tm)))
       (sort_key (\<lambda>tm. fst (snd tm)) (filter (\<lambda>tm. fst (snd tm) \<le> t) (timers sys)))
       (sys\<lparr>timers := filter (\<lambda>tm. \<not> fst (snd tm) \<le> t) (timers sys)\<rparr>)"

text \<open>A sequence of state changes, each with the time of its render.\<close>

fun run_changes :: "(nat \<times> App) list \<Rightarrow> save_sys \<Rightarrow> save_sys" where
  "run_changes [] sys = sys"
| "run_changes ((t, s) # es) sys = run_changes es (save_effect t s (elapse t sys))"

text \<open>
  Each change comes less than 500 ms after the one before it, the first of them after
  time \<open>t\<close>, and none is made while the application is loading.
\<close>

fun within_window :: "nat \<Rightarrow> (nat \<times> App) list \<Rightarrow> bool" where
  "within_window t [] = True"
| "within_window t ((t', s) # es) =
     (t \<le> t' \<and> t' < t + 500 \<and> \<not> isLoading s \<and> within_window t' es)"

text \<open>
  What holds of the timeouts whenever the effect is about to run: none is pending, or the
  one whose handle the cleanup holds.
\<close>

definition cleanup_holds_timers :: "save_sys \<Rightarrow> bool" where
  "cleanup_holds_timers sys =
     (case timers sys of
        [] \<Rightarrow> True
      | [tm] \<Rightarrow> cleanup sys = Some (fst tm)
      | _ \<Rightarrow> False)"

section \<open>Integers as doubles\<close>

text \<open>Every integer of magnitude below \<open>2 ^ 53\<close> is a double.\<close>

lemma round_half_even_int: "round_half_even (of_int m) = m"
  by (simp add: round_half_even_def)


lemma fl_of_int_pos:
  assumes "0 < n" "n < 2 ^ 53"
  shows "fl (of_int n) = of_int n"
proof -
  define e where "e = bitlen n - 1"
  have "bitlen n \<le> 53"
    using assms bitlen_le_iff_power[of n 53] by simp
  moreover have "0 < bitlen n"
    using assms compute_bitlen[of n] bitlen_nonneg[of "n div 2"] by simp
  ultimately have e: "0 \<le> e" "e \<le> 52" by (simp_all add: e_def)
  have il: "ilog2 \<bar>of_int n\<bar> = e"
    using assms by (simp add: ilog2_def e_def)
  define k where "k = nat (52 - e)"
  have ek: "e - 52 = - int k" using e by (simp add: k_def)
  have q: "(2::rat) powi (e - 52) = 1 / 2 ^ k"
    unfolding ek by (simp add: power_int_minus field_simps)
  have m: "\<bar>of_int n :: rat\<bar> / (2 powi (e - 52)) = of_int (n * 2 ^ k)"
    using assms by (simp add: q)
  have ne: "(of_int n :: rat) \<noteq> 0" using assms by simp
  have mx: "max e (- 1022) = e" using e by simp
  have "fl (of_int n) =
          sgn (of_int n :: rat) * of_int (round_half_even (\<bar>of_int n\<bar> / 2 powi (e - 52)))
            * 2 powi (e - 52)"
    unfolding fl_def Let_def il mx using ne by (simp only: if_False)
  also have "\<dots> = sgn (of_int n :: rat) * of_int (n * 2 ^ k) * (1 / 2 ^ k)"
    by (simp only: m round_half_even_int) (simp only: q)
  also have "\<dots> = of_int n" using assms by simp
  finally show ?thesis .
qed

lemma fl_neg: "fl (- x) = - fl x"
  by (simp add: fl_def Let_def)

lemma fl_of_int: "\<bar>n\<bar> < 2 ^ 53 \<Longrightarrow> fl (of_int n) = of_int n"
proof -
  assume a: "\<bar>n\<bar> < 2 ^ 53"
  consider "n = 0" | "0 < n" | "n < 0" by linarith
  then show ?thesis
  proof cases
    case 1
    then show ?thesis by (simp add: fl_def)
  next
    case 2
    then show ?thesis using a fl_of_int_pos[of n] by simp
  next
    case 3
    then have "fl (of_int (- n)) = of_int (- n)" using a fl_of_int_pos[of "- n"] by simp
    then show ?thesis using fl_neg[of "of_int n"] by simp
  qed
qed

lemma is_double_of_int: "\<bar>n\<bar> < 2 ^ 53 \<Longrightarrow> is_double (of_int n)"
proof -
  assume a: "\<bar>n\<bar> < 2 ^ 53"
  have "\<bar>of_int n :: rat\<bar> = of_int \<bar>n\<bar>" by simp
  also have "\<dots> < of_int (2 ^ 53)" using a by (simp only: of_int_less_iff)
  also have "\<dots> \<le> (2 ^ 1024 :: rat)" by simp
  finally have "\<not> 2 ^ 1024 \<le> \<bar>of_int n :: rat\<bar>" by simp
  then show ?thesis
    by (simp only: is_double_def to_double_def fl_of_int[OF a] if_False)
qed

section \<open>Objects as association lists\<close>

lemma update_fresh: "k \<notin> fst ` set al \<Longrightarrow> AList.update k v al = al @ [(k, v)]"
  by (induction al) auto

lemma fold_update_distinct:
  "distinct (map key cfg) \<Longrightarrow> key ` set cfg \<inter> fst ` set r = {} \<Longrightarrow>
   fold (\<lambda>i. AList.update (key i) (vl i)) cfg r = r @ map (\<lambda>i. (key i, vl i)) cfg"
proof (induction cfg arbitrary: r)
  case Nil
  then show ?case by simp
next
  case (Cons a cfg)
  have fresh: "key a \<notin> fst ` set r" using Cons.prems(2) by auto
  have "fold (\<lambda>i. AList.update (key i) (vl i)) cfg (r @ [(key a, vl a)]) =
          (r @ [(key a, vl a)]) @ map (\<lambda>i. (key i, vl i)) cfg"
  proof (rule Cons.IH)
    show "distinct (map key cfg)" using Cons.prems(1) by simp
    show "key ` set cfg \<inter> fst ` set (r @ [(key a, vl a)]) = {}"
      using Cons.prems by auto
  qed
  then show ?case by (simp add: update_fresh[OF fresh])
qed

text \<open>
  The cell a sequence of assignments leaves under a key: that of the last assignment to
  the key, or the one that was there.
\<close>

lemma map_of_fold_update:
  "map_of (fold (\<lambda>i. AList.update (key i) (vl i)) cfg r) k =
     (case filter (\<lambda>i. key i = k) cfg of
        [] \<Rightarrow> map_of r k
      | x # xs \<Rightarrow> Some (vl (last (x # xs))))"
proof (induction cfg arbitrary: r)
  case Nil
  then show ?case by simp
next
  case (Cons a cfg)
  show ?case
  proof (cases "key a = k")
    case True
    then show ?thesis
      by (simp add: Cons.IH AList.update_conv' split: list.splits)
  next
    case False
    then show ?thesis
      by (simp add: Cons.IH AList.update_conv' split: list.splits)
  qed
qed

lemma length_update:
  "length (AList.update k v al) = (if k \<in> fst ` set al then length al else Suc (length al))"
  by (induction al) auto

lemma keys_fold_update:
  "fst ` set (fold (\<lambda>i. AList.update (key i) (vl i)) cfg r) = fst ` set r \<union> key ` set cfg"
  by (induction cfg arbitrary: r) (auto simp: AList.dom_update)

lemma length_fold_update:
  "length (fold (\<lambda>i. AList.update (key i) (vl i)) cfg r) \<le> length r + length cfg"
proof (induction cfg arbitrary: r)
  case Nil
  then show ?case by simp
next
  case (Cons a cfg)
  have "length (fold (\<lambda>i. AList.update (key i) (vl i)) cfg (AList.update (key a) (vl a) r))
          \<le> length (AList.update (key a) (vl a) r) + length cfg"
    by (rule Cons.IH)
  moreover have "length (AList.update (key a) (vl a) r) \<le> Suc (length r)"
    by (simp add: length_update)
  ultimately show ?case by simp
qed

lemma length_fold_update_snoc:
  "key b \<in> key ` set cfg \<Longrightarrow>
   length (fold (\<lambda>i. AList.update (key i) (vl i)) (cfg @ [b]) r) \<le> length r + length cfg"
  using length_fold_update[of key vl cfg r] keys_fold_update[of key vl cfg r]
  by (simp add: length_update)


section \<open>Saving a check result\<close>

lemma filter_same_append:
  "filter (\<lambda>x. itemId x = itemId c) (filter (\<lambda>x. itemId x \<noteq> itemId c) cs @ [c]) = [c]"
  by (induction cs) auto

lemma filter_other_append:
  "filter (\<lambda>x. itemId x \<noteq> itemId c) (filter (\<lambda>x. itemId x \<noteq> itemId c) cs @ [c]) =
   filter (\<lambda>x. itemId x \<noteq> itemId c) cs"
  by simp

lemma valid_refs_lookup:
  "valid_refs h m \<Longrightarrow> map_of m d = Some a \<Longrightarrow> \<exists>r. objs h a = Some r"
  by (induction m) (auto simp: valid_refs_def split: if_splits)

lemmas store_defs =
  saveCheck_def onUpdate_check_def updateRecord_def getRecordForDate_def
  alloc_arr_def alloc_obj_def array_push_def read_record_def

lemma saveCheck_run:
  assumes r: "objs h record = Some r"
      and cs: "arrs h (checks r) = Some cs"
      and alloc: "record < nextAddr h" "checks r < nextAddr h"
      and refs: "valid_refs h prev" "valid_refs h recs"
  shows "\<exists>h' recs' n.
           saveCheck (onUpdate_check t0 now recs currentDate prev) record c h = Some (h', recs')
         \<and> map_of recs' currentDate = Some n
         \<and> read_record h' n =
               Some \<lparr>date = date r, checks = filter (\<lambda>x. itemId x \<noteq> itemId c) cs @ [c],
                     health = health r, lastUpdated = now\<rparr>
         \<and> objs h' record = Some r \<and> arrs h' (checks r) = Some cs"
proof (cases "map_of prev currentDate")
  case None
  show ?thesis
  proof (cases "map_of recs currentDate")
    case absent: None
    show ?thesis
      using r cs alloc None absent
      by (simp add: store_defs AList.update_conv' Let_def)
  next
    case (Some a)
    obtain ra where "objs h a = Some ra"
      using valid_refs_lookup[OF refs(2) Some] by blast
    then show ?thesis
      using r cs alloc None Some
      by (auto simp add: store_defs AList.update_conv' Let_def)
  qed
next
  case (Some a)
  obtain ra where "objs h a = Some ra"
    using valid_refs_lookup[OF refs(1) Some] by blast
  then show ?thesis
    using r cs alloc Some
    by (auto simp add: store_defs AList.update_conv' Let_def)
qed

text \<open>
  C1. Let \<open>record\<close> refer to a day record \<open>r\<close> whose checks are \<open>cs\<close>, in a store where
  the references of the record maps are live. Saving the check result \<open>c\<close> at time \<open>now\<close>
  succeeds and stores, under the current date, a record read as follows: its checks hold
  exactly one entry of the item of \<open>c\<close>, which is \<open>c\<close>; the entries of \<open>r\<close> of every
  other item are there, unchanged and in their order; date and health are those of \<open>r\<close>;
  \<open>lastUpdated\<close> is \<open>now\<close>. The object \<open>record\<close> refers to and its array are as before.
\<close>

theorem C1_saveCheck_replaces_one_entry:
  assumes "objs h record = Some r"
      and "arrs h (checks r) = Some cs"
      and "record < nextAddr h" and "checks r < nextAddr h"
      and "valid_refs h prev" and "valid_refs h recs"
  shows "\<exists>h' recs' n cs'.
           saveCheck (onUpdate_check t0 now recs currentDate prev) record c h = Some (h', recs')
         \<and> map_of recs' currentDate = Some n
         \<and> read_record h' n =
               Some \<lparr>date = date r, checks = cs', health = health r, lastUpdated = now\<rparr>
         \<and> filter (\<lambda>x. itemId x = itemId c) cs' = [c]
         \<and> filter (\<lambda>x. itemId x \<noteq> itemId c) cs' = filter (\<lambda>x. itemId x \<noteq> itemId c) cs
         \<and> objs h' record = Some r
         \<and> arrs h' (checks r) = Some cs"
proof -
  obtain h' recs' n where run:
    "saveCheck (onUpdate_check t0 now recs currentDate prev) record c h = Some (h', recs')"
    "map_of recs' currentDate = Some n"
    "read_record h' n =
       Some \<lparr>date = date r, checks = filter (\<lambda>x. itemId x \<noteq> itemId c) cs @ [c],
             health = health r, lastUpdated = now\<rparr>"
    "objs h' record = Some r" "arrs h' (checks r) = Some cs"
    using saveCheck_run[OF assms] by blast
  show ?thesis
    using run filter_same_append[of c cs] filter_other_append[of c cs] by blast
qed

theorem C1_saveCheck_witness:
  "\<exists>h r cs c.
     h = \<lparr>objs = [0 \<mapsto> r], arrs = [1 \<mapsto> cs], nextAddr = 2\<rparr>
   \<and> r = \<lparr>date = ''2024-05-01'', checks = 1,
            health = \<lparr>temp = ''36.5'', symptom = Nashi, wound = Nashi, details = None\<rparr>,
            lastUpdated = ''t''\<rparr>
   \<and> cs = [\<lparr>itemId = ''c1'', result = Some YES, val = None, comment = None, photo = None\<rparr>,
            \<lparr>itemId = ''c3'', result = Some NO, val = Some ''8'', comment = None, photo = None\<rparr>]
   \<and> c = \<lparr>itemId = ''c1'', result = Some NO, val = None, comment = Some [], photo = None\<rparr>
   \<and> objs h 0 = Some r \<and> arrs h (checks r) = Some cs \<and> 0 < nextAddr h \<and> checks r < nextAddr h
   \<and> valid_refs h [(''2024-05-01'', 0)]
   \<and> (\<exists>h' recs' n cs'.
         saveCheck (onUpdate_check ''t0'' ''t1'' [(''2024-05-01'', 0)] ''2024-05-01''
                      [(''2024-05-01'', 0)]) 0 c h = Some (h', recs')
       \<and> map_of recs' ''2024-05-01'' = Some n
       \<and> read_record h' n =
            Some \<lparr>date = ''2024-05-01'', checks = cs', health = health r, lastUpdated = ''t1''\<rparr>
       \<and> filter (\<lambda>x. itemId x = ''c1'') cs' = [c]
       \<and> filter (\<lambda>x. itemId x \<noteq> ''c1'') cs' =
            [\<lparr>itemId = ''c3'', result = Some NO, val = Some ''8'', comment = None, photo = None\<rparr>]
       \<and> objs h' 0 = Some r
       \<and> arrs h' 1 = Some cs)"
proof -
  let ?r = "\<lparr>date = ''2024-05-01'', checks = 1::addr,
             health = \<lparr>temp = ''36.5'', symptom = Nashi, wound = Nashi, details = None\<rparr>,
             lastUpdated = ''t''\<rparr>"
  let ?cs = "[\<lparr>itemId = ''c1'', result = Some YES, val = None, comment = None, photo = None\<rparr>,
             \<lparr>itemId = ''c3'', result = Some NO, val = Some ''8'', comment = None, photo = None\<rparr>]"
  let ?c = "\<lparr>itemId = ''c1'', result = Some NO, val = None, comment = Some [], photo = None\<rparr>"
  let ?h = "\<lparr>objs = [0 \<mapsto> ?r], arrs = [1 \<mapsto> ?cs], nextAddr = 2\<rparr>"
  have hyps: "objs ?h 0 = Some ?r" "arrs ?h (checks ?r) = Some ?cs"
    "0 < nextAddr ?h" "checks ?r < nextAddr ?h" "valid_refs ?h [(''2024-05-01'', 0)]"
    by (simp_all add: valid_refs_def)
  show ?thesis
    using hyps
      C1_saveCheck_replaces_one_entry[OF hyps hyps(5), of "''t0''" "''t1''" "''2024-05-01''" ?c]
    by simp
qed

section \<open>Backup round trip\<close>













text \<open>The objects the application builds are proper.\<close>

lemma proper_handleSave:
  "handleSave item r v c p = Some x \<Longrightarrow> proper x"
  by (auto simp: handleSave_def RecordResult_to_js_def split: option.splits RecordResult.splits)

lemma proper_HealthRecord: "proper (HealthRecord_to_js h)"
  by (simp add: HealthRecord_to_js_def opt_prop_def split: option.splits)

lemma proper_DayRecord: "list_all proper (checks r) \<Longrightarrow> proper (DayRecord_to_js r)"
  by (simp add: DayRecord_to_js_def proper_HealthRecord list_all_iff)








section \<open>Loading and restoring\<close>

lemma to_double_of_int: "\<bar>n\<bar> < 2 ^ 53 \<Longrightarrow> to_double (of_int n) = DFinite (of_int n)"
  using is_double_of_int[of n] by (simp add: is_double_def)

lemma get_prop_throws: "get_prop v k = Inl e \<longleftrightarrow> (v = VNull \<or> v = VUndefined) \<and> e = TypeError"
  by (auto simp: get_prop_def split: jsval.splits)

lemma get_prop_of_json: "d \<noteq> JNull \<Longrightarrow> \<exists>x. get_prop (of_json d) k = Inr x"
  by (cases d) (auto simp: get_prop_def)

lemma get_prop_lacking:
  "d \<noteq> JNull \<Longrightarrow> \<not> has_field (of_json d) k \<Longrightarrow> get_prop (of_json d) k = Inr VUndefined"
  by (cases d) (auto simp: get_prop_def has_field_def)







text \<open>
  A file whose parsed value is not \<open>null\<close> and lacks \<open>records\<close> or \<open>config\<close> is
  answered by the toast "invalid backup file", the state unchanged; so are the numbers,
  strings, booleans, arrays and the empty object.
\<close>

lemma handleRestore_lacking:
  assumes "d \<noteq> JNull"
      and "\<not> has_field (of_json d) ''records'' \<or> \<not> has_field (of_json d) ''config''"
  shows "handleRestore confirmed (Some (Doc d)) s = (s, Some (msg_invalid_backup, ToastError))"
proof -
  obtain c where c: "get_prop (of_json d) ''config'' = Inr c"
    using get_prop_of_json[OF assms(1)] by blast
  show ?thesis
  proof (cases "truthy c")
    case False
    then show ?thesis
      by (simp add: handleRestore_def handleRestore_try_def importBackupJSON_def JSON_parse_def c)
  next
    case True
    then have "c \<noteq> VUndefined" by (auto simp: truthy_def)
    then have "has_field (of_json d) ''config''"
      using c get_prop_lacking[OF assms(1), of "''config''"] by auto
    then have "get_prop (of_json d) ''records'' = Inr VUndefined"
      using assms get_prop_lacking by blast
    then show ?thesis
      by (simp add: handleRestore_def handleRestore_try_def importBackupJSON_def JSON_parse_def c
          truthy_def)
  qed
qed

lemma handleRestore_falsy_top_level:
  "handleRestore confirmed (Some (Doc (JNum 0))) s = (s, Some (msg_invalid_backup, ToastError))"
  "handleRestore confirmed (Some (Doc (JStr []))) s = (s, Some (msg_invalid_backup, ToastError))"
  "handleRestore confirmed (Some (Doc (JBool False))) s = (s, Some (msg_invalid_backup, ToastError))"
  "handleRestore confirmed (Some (Doc (JArr []))) s = (s, Some (msg_invalid_backup, ToastError))"
  "handleRestore confirmed (Some (Doc (JObj []))) s = (s, Some (msg_invalid_backup, ToastError))"
  by (rule handleRestore_lacking; simp add: has_field_def members_to_object_def)+

text \<open>
  C4 holds of every file whose parsed value is not \<open>null\<close> (the lemma above) and fails
  at the file whose text is \<open>null\<close>: it has neither field, and reading \<open>data.config\<close>
  throws, so the toast is the one of \<open>catch\<close>, "reading failed", not "invalid backup
  file". The state is unchanged there too.
\<close>

theorem C4_null_file_read_failure:
  "\<not> has_field (of_json JNull) ''records''
 \<and> \<not> has_field (of_json JNull) ''config''
 \<and> handleRestore confirmed (Some (Doc JNull)) s = (s, Some (msg_read_failed, ToastError))
 \<and> msg_read_failed \<noteq> msg_invalid_backup"
  by (simp add: handleRestore_def handleRestore_try_def importBackupJSON_def JSON_parse_def
      get_prop_def has_field_def msg_read_failed_def msg_invalid_backup_def)

text \<open>
  A member written twice counts with its last value: the file below passes no test, its
  \<open>config\<close> being 0.
\<close>

lemma handleRestore_duplicate_member:
  "handleRestore True
     (Some (Doc (JObj [(''config'', JArr [JStr ''a'']), (''config'', JNum 0), (''records'', JObj [])]))) s =
   (s, Some (msg_invalid_backup, ToastError))"
  using to_double_of_int[of 0]
  by (simp add: handleRestore_def handleRestore_try_def importBackupJSON_def JSON_parse_def
      get_prop_def members_to_object_def truthy_def truthy_number_def)

text \<open>
  C10, as stated, fails when the user answers the confirmation with no: the file passes
  the test and nothing is replaced.
\<close>

theorem C10_declined_counterexample:
  "get_prop (of_json (JObj [(''config'', JObj []), (''records'', JStr ''x'')])) ''config'' = Inr (VObj [])
 \<and> truthy (VObj [])
 \<and> get_prop (of_json (JObj [(''config'', JObj []), (''records'', JStr ''x'')])) ''records'' = Inr (VStr ''x'')
 \<and> truthy (VStr ''x'')
 \<and> fst (handleRestore False (Some (Doc (JObj [(''config'', JObj []), (''records'', JStr ''x'')])))
          \<lparr>config = VArr [], records = VObj [], isLoading = False\<rparr>) \<noteq>
     \<lparr>config = VObj [], records = VStr ''x'', isLoading = False\<rparr>"
  by (simp add: handleRestore_def handleRestore_try_def importBackupJSON_def JSON_parse_def
      get_prop_def truthy_def members_to_object_def)

text \<open>
  C10, amended. The test of a parsed file is the truthiness of its \<open>config\<close> and
  \<open>records\<close> and nothing else: whatever values they are, once the user confirms they
  are set as the configuration and the record map, with the toast "restored"; when the
  user declines, the state stays as it was and no toast is shown.
\<close>

theorem C10_truthy_fields_are_adopted:
  assumes "get_prop (of_json d) ''config'' = Inr c" and "truthy c"
      and "get_prop (of_json d) ''records'' = Inr r" and "truthy r"
  shows "handleRestore True (Some (Doc d)) s =
           (s\<lparr>config := c, records := r\<rparr>, Some (msg_restored, ToastSuccess))
       \<and> handleRestore False (Some (Doc d)) s = (s, None)"
  using assms
  by (simp add: handleRestore_def handleRestore_try_def importBackupJSON_def JSON_parse_def)

text \<open>
  An instance: a file whose \<open>config\<close> is an array of one string and whose \<open>records\<close>
  is a non-empty string.
\<close>

theorem C10_truthy_fields_witness:
  "get_prop (of_json (JObj [(''config'', JArr [JStr ''a'']), (''records'', JStr ''x'')])) ''config'' =
     Inr (VArr [VStr ''a''])
 \<and> truthy (VArr [VStr ''a''])
 \<and> get_prop (of_json (JObj [(''config'', JArr [JStr ''a'']), (''records'', JStr ''x'')])) ''records'' =
     Inr (VStr ''x'')
 \<and> truthy (VStr ''x'')
 \<and> handleRestore True (Some (Doc (JObj [(''config'', JArr [JStr ''a'']), (''records'', JStr ''x'')])))
      \<lparr>config = VArr [], records = VObj [], isLoading = False\<rparr> =
     (\<lparr>config = VArr [VStr ''a''], records = VStr ''x'', isLoading = False\<rparr>,
      Some (msg_restored, ToastSuccess))
 \<and> handleRestore False (Some (Doc (JObj [(''config'', JArr [JStr ''a'']), (''records'', JStr ''x'')])))
      \<lparr>config = VArr [], records = VObj [], isLoading = False\<rparr> =
     (\<lparr>config = VArr [], records = VObj [], isLoading = False\<rparr>, None)"
proof -
  let ?d = "JObj [(''config'', JArr [JStr ''a'']), (''records'', JStr ''x'')]"
  have hyps: "get_prop (of_json ?d) ''config'' = Inr (VArr [VStr ''a''])" "truthy (VArr [VStr ''a''])"
    "get_prop (of_json ?d) ''records'' = Inr (VStr ''x'')" "truthy (VStr ''x'')"
    by (simp_all add: get_prop_def truthy_def members_to_object_def)
  show ?thesis
    using hyps
      C10_truthy_fields_are_adopted[OF hyps, of "\<lparr>config = VArr [], records = VObj [], isLoading = False\<rparr>"]
    by simp
qed

section \<open>Progress\<close>

lemma fl_percent_full: "fl (fl 1 * 100) = 100"
  using fl_of_int[of 1] fl_of_int[of 100] by simp

lemma Math_round_int: "Math_round (of_int n) = n"
proof -
  have "\<lfloor>of_int n + 1 / 2 :: rat\<rfloor> = n" by (rule floor_unique) simp_all
  then show ?thesis by (simp only: Math_round_def)
qed

lemma progress_all_answered:
  assumes "cfg \<noteq> []"
      and "\<And>item. item \<in> set cfg \<Longrightarrow>
             \<exists>res. List.find (\<lambda>r. itemId r = ci_id item) (checks record) = Some res
                   \<and> result res \<noteq> None"
  shows "progress cfg record = Finite 100"
proof -
  have "filter (\<lambda>item.
          case List.find (\<lambda>r. itemId r = ci_id item) (checks record) of
            None \<Rightarrow> False
          | Some res \<Rightarrow> result res \<noteq> None) cfg = cfg"
    by (rule filter_True) (use assms(2) in force)
  then have c: "completedCount cfg record = length cfg"
    by (simp add: completedCount_def)
  have n: "length cfg \<noteq> 0" using assms(1) by simp
  then have q: "(of_nat (length cfg) / of_nat (length cfg) :: rat) = 1" by simp
  have "Math_round (fl (fl 1 * 100)) = 100"
    using Math_round_int[of 100] by (simp only: fl_percent_full of_int_numeral)
  then show ?thesis
    by (simp only: progress_def c n if_False q)
qed

text \<open>
  Between none and all, the code rounds the product of two doubles, which is not always
  the rounding of the exact percentage: with 23 of 40 items answered the quotient as a
  double lies below 0.575 and its product with 100 below 57.5, so the progress is 57,
  where the exact percentage 57.5 rounds to 58.
\<close>

lemma Math_round_23_of_40:
  "Math_round (fl (fl (of_nat 23 / of_nat 40) * 100)) = 57"
  "Math_round (100 * of_nat 23 / of_nat 40) = 58"
  by code_simp+

lemma progress_23_of_40:
  assumes "length cfg = 40" and "completedCount cfg record = 23"
  shows "progress cfg record = Finite 57" and "progress_as_specified cfg record = 58"
proof -
  show "progress cfg record = Finite 57"
    by (simp only: progress_def assms Math_round_23_of_40) simp
  show "progress_as_specified cfg record = 58"
    by (simp only: progress_as_specified_def assms Math_round_23_of_40) simp
qed

text \<open>
  C3 holds where every configured item is answered (\<open>progress_all_answered\<close>). It
  fails on the empty configuration: there the progress is \<open>NaN\<close>, not 0.
\<close>

theorem C3_progress_of_empty_configuration:
  "progress [] record = NaN \<and> progress [] record \<noteq> Finite 0"
  by (simp add: progress_def)

section \<open>Cells and columns of the tabular export\<close>

lemma valueStr_closed:
  "valueStr item record =
     (case List.find (\<lambda>c. itemId c = ci_id item) (checks record) of
        None \<Rightarrow> []
      | Some c \<Rightarrow>
          (case result c of Some YES \<Rightarrow> mark_yes | Some NO \<Rightarrow> mark_no | None \<Rightarrow> [])
          @ (if truthy_string (val c)
             then '' ('' @ or_empty (val c) @ or_empty (ci_unit item) @ '')'' else [])
          @ (if truthy_string (comment c)
             then '' ['' @ memo @ '': '' @ or_empty (comment c) @ '']'' else []))"
  by (simp add: valueStr_def Let_def split: option.splits)

lemma mset_insort_cmp: "mset (insort_cmp cmp x xs) = add_mset x (mset xs)"
  by (induction xs) auto

lemma mset_js_sort: "mset (js_sort cmp xs) = mset xs"
  by (induction xs) (auto simp: js_sort_def mset_insort_cmp)

lemma set_insort_cmp: "set (insort_cmp cmp x xs) = insert x (set xs)"
  by (induction xs) auto

lemma sorted_insort_cmp:
  assumes total: "\<And>a b. cmp a b \<le> 0 \<or> cmp b a \<le> 0"
      and trans: "\<And>a b c. cmp a b \<le> 0 \<Longrightarrow> cmp b c \<le> 0 \<Longrightarrow> cmp a c \<le> 0"
  shows "sorted_wrt (\<lambda>a b. cmp a b \<le> 0) xs \<Longrightarrow>
         sorted_wrt (\<lambda>a b. cmp a b \<le> 0) (insort_cmp cmp x xs)"
proof (induction xs)
  case Nil
  then show ?case by simp
next
  case (Cons y ys)
  show ?case
  proof (cases "cmp x y \<le> 0")
    case True
    then have "\<forall>z\<in>set ys. cmp x z \<le> 0"
      using Cons.prems trans by auto
    then show ?thesis using True Cons.prems by simp
  next
    case False
    then have "cmp y x \<le> 0" using total[of x y] by simp
    then show ?thesis
      using False Cons by (auto simp: set_insort_cmp)
  qed
qed

lemma sorted_js_sort:
  assumes "\<And>a b. cmp a b \<le> 0 \<or> cmp b a \<le> 0"
      and "\<And>a b c. cmp a b \<le> 0 \<Longrightarrow> cmp b c \<le> 0 \<Longrightarrow> cmp a c \<le> 0"
  shows "sorted_wrt (\<lambda>a b. cmp a b \<le> 0) (js_sort cmp xs)"
  by (induction xs) (auto simp: js_sort_def intro: sorted_insort_cmp[OF assms])

lemma set_js_sort: "set (js_sort cmp xs) = set xs"
  using mset_js_sort[of cmp xs] by (metis set_mset_mset)

lemma exportRow_in_exportRows:
  "(d, record) \<in> set recs \<Longrightarrow>
   exportRow f cfg record \<in> set (exportRows localeCompare f recs cfg)"
  by (force simp: exportRows_def set_js_sort)

text \<open>
  The cell of an item whose label no other configured item bears is the string the loop
  builds for that item.
\<close>

lemma exportRow_cell:
  assumes "item \<in> set cfg"
      and "\<And>other. other \<in> set cfg \<Longrightarrow> resultKey other = resultKey item \<Longrightarrow> other = item"
  shows "map_of (exportRow f cfg record) (resultKey item) = Some (valueStr item record)"
proof -
  let ?xs = "filter (\<lambda>i. resultKey i = resultKey item) cfg"
  have "item \<in> set ?xs" using assms(1) by simp
  then obtain x xs where xs: "?xs = x # xs" by (cases ?xs) auto
  have "last (x # xs) \<in> set ?xs" by (simp only: xs) (rule last_in_set, simp)
  then have "last (x # xs) = item" using assms(2) by simp
  then show ?thesis
    unfolding exportRow_def
    by (simp only: map_of_fold_update[of resultKey "\<lambda>i. valueStr i record"] xs list.case)
qed

lemma seed_labels_distinct: "distinct (map resultKey DEFAULT_CHECKLIST)"
  by (simp add: DEFAULT_CHECKLIST_def resultKey_def cat_hygiene_def cat_haccp_def
      text_c1_def text_c2_def text_c3_def text_c4_def text_c5_def text_c6_def
      text_h1_def text_h2_def text_h3_def text_h4_def text_h5_def)

lemma seed_label_unshared:
  assumes "item \<in> set DEFAULT_CHECKLIST" and "other \<in> set DEFAULT_CHECKLIST"
      and "resultKey other = resultKey item"
  shows "other = item"
  using seed_labels_distinct assms by (simp add: distinct_map inj_on_def)

text \<open>
  C5, as stated, fails at an item of type \<open>boolean\<close> whose check carries a value, as a
  restored backup can hold it: the code appends the value there too. With the seed
  configuration and a record in which \<open>c1\<close> is answered \<open>YES\<close> with the value 5, the
  row of the record has U+826F followed by \<open> (5)\<close> in the column of \<open>c1\<close>, where the
  claim gives U+826F alone.
\<close>

theorem C5_boolean_item_with_value_counterexample:
  "ci_type (DEFAULT_CHECKLIST ! 0) = BooleanItem
 \<and> map_of (exportRow id DEFAULT_CHECKLIST
       \<lparr>date = ''2024-05-01'',
        checks = [\<lparr>itemId = ''c1'', result = Some YES, val = Some ''5'', comment = Some [], photo = None\<rparr>],
        health = \<lparr>temp = [], symptom = Nashi, wound = Nashi, details = None\<rparr>,
        lastUpdated = ''t''\<rparr>)
     (resultKey (DEFAULT_CHECKLIST ! 0)) = Some (mark_yes @ '' (5)'')
 \<and> cell_as_specified (DEFAULT_CHECKLIST ! 0)
       \<lparr>date = ''2024-05-01'',
        checks = [\<lparr>itemId = ''c1'', result = Some YES, val = Some ''5'', comment = Some [], photo = None\<rparr>],
        health = \<lparr>temp = [], symptom = Nashi, wound = Nashi, details = None\<rparr>,
        lastUpdated = ''t''\<rparr> = mark_yes
 \<and> mark_yes @ '' (5)'' \<noteq> mark_yes"
proof -
  let ?r = "\<lparr>date = ''2024-05-01'',
        checks = [\<lparr>itemId = ''c1'', result = Some YES, val = Some ''5'', comment = Some [], photo = None\<rparr>],
        health = \<lparr>temp = [], symptom = Nashi, wound = Nashi, details = None\<rparr>,
        lastUpdated = ''t''\<rparr>"
  have ty: "ci_type (DEFAULT_CHECKLIST ! 0) = BooleanItem"
    by (simp add: DEFAULT_CHECKLIST_def)
  have "map_of (exportRow id DEFAULT_CHECKLIST ?r) (resultKey (DEFAULT_CHECKLIST ! 0)) =
          Some (valueStr (DEFAULT_CHECKLIST ! 0) ?r)"
  proof (rule exportRow_cell)
    show m: "DEFAULT_CHECKLIST ! 0 \<in> set DEFAULT_CHECKLIST"
      by (simp add: DEFAULT_CHECKLIST_def)
    show "other = DEFAULT_CHECKLIST ! 0"
      if "other \<in> set DEFAULT_CHECKLIST" "resultKey other = resultKey (DEFAULT_CHECKLIST ! 0)" for other
      using that by (rule seed_label_unshared[OF m])
  qed
  moreover have "valueStr (DEFAULT_CHECKLIST ! 0) ?r = mark_yes @ '' (5)''"
    by (simp add: valueStr_closed DEFAULT_CHECKLIST_def truthy_string_def or_empty_def)
  moreover have "cell_as_specified (DEFAULT_CHECKLIST ! 0) ?r = mark_yes"
    by (simp add: cell_as_specified_def DEFAULT_CHECKLIST_def truthy_string_def or_empty_def)
  ultimately show ?thesis
    using ty by simp
qed

text \<open>
  C5, amended. Let an item be configured whose label no other configured item bears.
  Every record of the map has its row in the export, and in that row the cell of the item
  is empty when the record has no check of the item; otherwise it is the mark of the
  result (U+826F for \<open>YES\<close>, U+5426 for \<open>NO\<close>, nothing for none), followed by the value
  and the unit of the item in parentheses when the value is present (defined and not
  empty), whatever the type of the item, followed by the memo in brackets when the comment
  is present. It is the cell of the specification for every item of type \<open>record\<close>, and
  for every item whose check carries no value.
\<close>

theorem C5_cell_of_an_item:
  assumes "item \<in> set cfg"
      and "\<And>other. other \<in> set cfg \<Longrightarrow> resultKey other = resultKey item \<Longrightarrow> other = item"
      and "(d, record) \<in> set recs"
  shows "exportDataToExcel True localeCompare toLocaleString recs cfg =
           Inr (exportRows localeCompare toLocaleString recs cfg)
       \<and> exportRow toLocaleString cfg record \<in> set (exportRows localeCompare toLocaleString recs cfg)
       \<and> map_of (exportRow toLocaleString cfg record) (resultKey item) =
           Some (case List.find (\<lambda>c. itemId c = ci_id item) (checks record) of
                   None \<Rightarrow> []
                 | Some c \<Rightarrow>
                     (case result c of Some YES \<Rightarrow> mark_yes | Some NO \<Rightarrow> mark_no | None \<Rightarrow> [])
                     @ (if truthy_string (val c)
                        then '' ('' @ or_empty (val c) @ or_empty (ci_unit item) @ '')'' else [])
                     @ (if truthy_string (comment c)
                        then '' ['' @ memo @ '': '' @ or_empty (comment c) @ '']'' else []))
       \<and> (ci_type item = RecordItem
            \<or> (case List.find (\<lambda>c. itemId c = ci_id item) (checks record) of
                  None \<Rightarrow> True
                | Some c \<Rightarrow> \<not> truthy_string (val c))
            \<longrightarrow> map_of (exportRow toLocaleString cfg record) (resultKey item) =
                  Some (cell_as_specified item record))"
proof -
  have cell: "map_of (exportRow toLocaleString cfg record) (resultKey item) =
                Some (valueStr item record)"
    by (rule exportRow_cell[OF assms(1,2)])
  have spec: "valueStr item record = cell_as_specified item record"
    if "ci_type item = RecordItem
          \<or> (case List.find (\<lambda>c. itemId c = ci_id item) (checks record) of
                None \<Rightarrow> True
              | Some c \<Rightarrow> \<not> truthy_string (val c))"
    using that by (auto simp add: valueStr_closed cell_as_specified_def split: option.splits)
  have rows: "exportDataToExcel True localeCompare toLocaleString recs cfg =
                Inr (exportRows localeCompare toLocaleString recs cfg)"
    by (simp add: exportDataToExcel_def)
  show ?thesis
    using rows exportRow_in_exportRows[OF assms(3)] spec
    by (simp only: cell valueStr_closed[symmetric]) simp
qed

text \<open>
  The example of the specification, with the seed configuration: in the row of a record
  in which \<open>c1\<close> is answered \<open>YES\<close> and \<open>c3\<close> is answered \<open>NO\<close> with the value 8, the
  cell of \<open>c3\<close> is U+5426, a blank and \<open>(8\<close> U+2103 \<open>)\<close>, the cell of \<open>c1\<close> is
  U+826F.
\<close>

theorem C5_cell_of_an_item_example:
  "ci_type (DEFAULT_CHECKLIST ! 2) = RecordItem
 \<and> ci_type (DEFAULT_CHECKLIST ! 0) = BooleanItem
 \<and> map_of (exportRow id DEFAULT_CHECKLIST
       \<lparr>date = ''2024-05-01'',
        checks = [\<lparr>itemId = ''c1'', result = Some YES, val = None, comment = Some [], photo = None\<rparr>,
                  \<lparr>itemId = ''c3'', result = Some NO, val = Some ''8'', comment = Some [], photo = None\<rparr>],
        health = \<lparr>temp = [], symptom = Nashi, wound = Nashi, details = None\<rparr>,
        lastUpdated = ''t''\<rparr>)
     (resultKey (DEFAULT_CHECKLIST ! 2)) = Some (mark_no @ '' (8'' @ degC @ '')'')
 \<and> map_of (exportRow id DEFAULT_CHECKLIST
       \<lparr>date = ''2024-05-01'',
        checks = [\<lparr>itemId = ''c1'', result = Some YES, val = None, comment = Some [], photo = None\<rparr>,
                  \<lparr>itemId = ''c3'', result = Some NO, val = Some ''8'', comment = Some [], photo = None\<rparr>],
        health = \<lparr>temp = [], symptom = Nashi, wound = Nashi, details = None\<rparr>,
        lastUpdated = ''t''\<rparr>)
     (resultKey (DEFAULT_CHECKLIST ! 0)) = Some mark_yes"
proof -
  let ?r = "\<lparr>date = ''2024-05-01'',
        checks = [\<lparr>itemId = ''c1'', result = Some YES, val = None, comment = Some [], photo = None\<rparr>,
                  \<lparr>itemId = ''c3'', result = Some NO, val = Some ''8'', comment = Some [], photo = None\<rparr>],
        health = \<lparr>temp = [], symptom = Nashi, wound = Nashi, details = None\<rparr>,
        lastUpdated = ''t''\<rparr>"
  have ty: "ci_type (DEFAULT_CHECKLIST ! 2) = RecordItem" "ci_type (DEFAULT_CHECKLIST ! 0) = BooleanItem"
    by (simp_all add: DEFAULT_CHECKLIST_def)
  have m3: "DEFAULT_CHECKLIST ! 2 \<in> set DEFAULT_CHECKLIST"
    and m1: "DEFAULT_CHECKLIST ! 0 \<in> set DEFAULT_CHECKLIST"
    by (simp_all add: DEFAULT_CHECKLIST_def)
  have r: "(''2024-05-01'', ?r) \<in> set [(''2024-05-01'', ?r)]"
    by simp
  have f3: "List.find (\<lambda>c. itemId c = ci_id (DEFAULT_CHECKLIST ! 2)) (checks ?r) =
              Some \<lparr>itemId = ''c3'', result = Some NO, val = Some ''8'', comment = Some [], photo = None\<rparr>"
    and f1: "List.find (\<lambda>c. itemId c = ci_id (DEFAULT_CHECKLIST ! 0)) (checks ?r) =
              Some \<lparr>itemId = ''c1'', result = Some YES, val = None, comment = Some [], photo = None\<rparr>"
    by (simp_all add: DEFAULT_CHECKLIST_def)
  have u3: "ci_unit (DEFAULT_CHECKLIST ! 2) = Some degC"
    by (simp add: DEFAULT_CHECKLIST_def)
  have c3: "map_of (exportRow id DEFAULT_CHECKLIST ?r) (resultKey (DEFAULT_CHECKLIST ! 2)) =
              Some (mark_no @ '' (8'' @ degC @ '')'')"
    using C5_cell_of_an_item[of "DEFAULT_CHECKLIST ! 2" DEFAULT_CHECKLIST "''2024-05-01''" ?r
        "[(''2024-05-01'', ?r)]" undefined id, OF m3 seed_label_unshared[OF m3] r]
    by (simp only: f3 u3 option.case) (simp add: truthy_string_def or_empty_def)
  have c1: "map_of (exportRow id DEFAULT_CHECKLIST ?r) (resultKey (DEFAULT_CHECKLIST ! 0)) =
              Some mark_yes"
    using C5_cell_of_an_item[of "DEFAULT_CHECKLIST ! 0" DEFAULT_CHECKLIST "''2024-05-01''" ?r
        "[(''2024-05-01'', ?r)]" undefined id, OF m1 seed_label_unshared[OF m1] r]
    by (simp only: f1 option.case) (simp add: truthy_string_def or_empty_def)
  show ?thesis
    using ty c3 c1 by (simp only: simp_thms)
qed

section \<open>Rows and columns of the tabular export\<close>

lemma exportRow_last_item:
  "map_of (exportRow f (cfg @ [b]) record) (resultKey b) = Some (valueStr b record)"
  by (simp add: exportRow_def AList.update_conv')

lemma exportRow_shared_label:
  "resultKey b \<in> resultKey ` set cfg \<Longrightarrow> length (exportRow f (cfg @ [b]) record) \<le> 6 + length cfg"
  using length_fold_update_snoc[of resultKey b cfg "\<lambda>i. valueStr i record" "fixed_columns f record"]
  by (simp add: exportRow_def fixed_columns_def)

lemma resultKey_not_fixed: "resultKey item \<notin> fst ` set (fixed_columns f record)"
  by (simp add: fixed_columns_def resultKey_def col_date_def col_temp_def col_symptom_def
      col_wound_def col_details_def col_lastUpdated_def col_staff_def)

lemma exportRow_distinct_labels:
  assumes "distinct (map resultKey cfg)"
  shows "exportRow f cfg record =
           fixed_columns f record @ map (\<lambda>i. (resultKey i, valueStr i record)) cfg"
  unfolding exportRow_def
proof (rule fold_update_distinct[OF assms])
  show "resultKey ` set cfg \<inter> fst ` set (fixed_columns f record) = {}"
    using resultKey_not_fixed[of _ f "record"] by blast
qed

text \<open>
  Rows and columns when the labels of the configured items are pairwise distinct and the
  collation is a total preorder: one row per record, the rows in descending order of
  their dates, each with the six fixed columns followed by one column per item.
\<close>

lemma exportRows_distinct_labels:
  assumes "distinct (map resultKey cfg)"
      and "\<And>a b. localeCompare a b \<le> 0 \<or> localeCompare b a \<le> 0"
      and "\<And>a b c. localeCompare a b \<le> 0 \<Longrightarrow> localeCompare b c \<le> 0 \<Longrightarrow> localeCompare a c \<le> 0"
  shows "\<exists>sorted_records.
           exportRows localeCompare f recs cfg =
             map (\<lambda>r. fixed_columns f r @ map (\<lambda>i. (resultKey i, valueStr i r)) cfg) sorted_records
         \<and> mset sorted_records = mset (map snd recs)
         \<and> sorted_wrt (\<lambda>a b. localeCompare (date b) (date a) \<le> 0) sorted_records"
proof -
  let ?cmp = "\<lambda>a b :: DailyCheckResult list DayRecord. localeCompare (date b) (date a)"
  have "sorted_wrt (\<lambda>a b. ?cmp a b \<le> 0) (js_sort ?cmp (map snd recs))"
    by (rule sorted_js_sort) (use assms(2,3) in blast)+
  then show ?thesis
    using mset_js_sort[of ?cmp "map snd recs"]
    by (intro exI[of _ "js_sort ?cmp (map snd recs)"])
       (simp add: exportRows_def exportRow_distinct_labels[OF assms(1)])
qed

text \<open>
  C8 holds of every configuration whose labels are pairwise distinct (the lemma above)
  and fails where two items share category and text, as two items added one after the
  other do. With the eleven seed items and two added ones, thirteen items in all, and one
  record in which the first added item is answered \<open>YES\<close>: the export has one row, the
  row has at most 18 columns and not 19, and the column of the shared label holds the
  empty string of the second added item in place of the mark of the first.
\<close>

theorem C8_added_items_share_a_column:
  "length (handleAddItem 2 (handleAddItem 1 DEFAULT_CHECKLIST)) = 13
 \<and> exportDataToExcel True localeCompare toLocaleString
       [(''2024-05-01'',
         \<lparr>date = ''2024-05-01'',
          checks = [\<lparr>itemId = ''custom_1'', result = Some YES, val = None, comment = Some [], photo = None\<rparr>],
          health = \<lparr>temp = [], symptom = Nashi, wound = Nashi, details = None\<rparr>,
          lastUpdated = ''t''\<rparr>)]
       (handleAddItem 2 (handleAddItem 1 DEFAULT_CHECKLIST)) =
     Inr [exportRow toLocaleString (handleAddItem 2 (handleAddItem 1 DEFAULT_CHECKLIST))
            \<lparr>date = ''2024-05-01'',
             checks = [\<lparr>itemId = ''custom_1'', result = Some YES, val = None, comment = Some [], photo = None\<rparr>],
             health = \<lparr>temp = [], symptom = Nashi, wound = Nashi, details = None\<rparr>,
             lastUpdated = ''t''\<rparr>]
 \<and> length (exportRow toLocaleString (handleAddItem 2 (handleAddItem 1 DEFAULT_CHECKLIST))
            \<lparr>date = ''2024-05-01'',
             checks = [\<lparr>itemId = ''custom_1'', result = Some YES, val = None, comment = Some [], photo = None\<rparr>],
             health = \<lparr>temp = [], symptom = Nashi, wound = Nashi, details = None\<rparr>,
             lastUpdated = ''t''\<rparr>) \<le> 18
 \<and> valueStr (handleAddItem 2 (handleAddItem 1 DEFAULT_CHECKLIST) ! 11)
       \<lparr>date = ''2024-05-01'',
        checks = [\<lparr>itemId = ''custom_1'', result = Some YES, val = None, comment = Some [], photo = None\<rparr>],
        health = \<lparr>temp = [], symptom = Nashi, wound = Nashi, details = None\<rparr>,
        lastUpdated = ''t''\<rparr> = mark_yes
 \<and> map_of (exportRow toLocaleString (handleAddItem 2 (handleAddItem 1 DEFAULT_CHECKLIST))
            \<lparr>date = ''2024-05-01'',
             checks = [\<lparr>itemId = ''custom_1'', result = Some YES, val = None, comment = Some [], photo = None\<rparr>],
             health = \<lparr>temp = [], symptom = Nashi, wound = Nashi, details = None\<rparr>,
             lastUpdated = ''t''\<rparr>)
       (resultKey (handleAddItem 2 (handleAddItem 1 DEFAULT_CHECKLIST) ! 11)) = Some []"
proof -
  let ?r = "\<lparr>date = ''2024-05-01'',
             checks = [\<lparr>itemId = ''custom_1'', result = Some YES, val = None, comment = Some [], photo = None\<rparr>],
             health = \<lparr>temp = [], symptom = Nashi, wound = Nashi, details = None\<rparr>,
             lastUpdated = ''t''\<rparr>"
  let ?cfg1 = "handleAddItem 1 DEFAULT_CHECKLIST"
  let ?b = "\<lparr>ci_id = ''custom_'' @ show_int 2, category = cat_other, ci_text = text_new_item,
             ci_type = BooleanItem, ci_unit = None, displayOrder = int (length ?cfg1) + 1\<rparr>"
  let ?a = "\<lparr>ci_id = ''custom_'' @ show_int 1, category = cat_other, ci_text = text_new_item,
             ci_type = BooleanItem, ci_unit = None, displayOrder = int (length DEFAULT_CHECKLIST) + 1\<rparr>"
  have len0: "length DEFAULT_CHECKLIST = 11"
    by (simp add: DEFAULT_CHECKLIST_def)
  have cfg2: "handleAddItem 2 ?cfg1 = ?cfg1 @ [?b]" and cfg1: "?cfg1 = DEFAULT_CHECKLIST @ [?a]"
    by (simp_all add: handleAddItem_def)
  have len: "length (handleAddItem 2 ?cfg1) = 13"
    by (simp add: handleAddItem_def len0)
  have s1: "show_int 1 = ''1''" and s2: "show_int 2 = ''2''"
    by (simp_all add: show_int_def show_nat.simps digit_char_def char_of_eq_iff)
  have nth: "handleAddItem 2 ?cfg1 ! 11 = ?a"
    by (simp add: handleAddItem_def nth_append len0)
  have shared: "resultKey ?b \<in> resultKey ` set ?cfg1"
    by (simp add: handleAddItem_def resultKey_def)
  have rows: "exportDataToExcel True localeCompare toLocaleString [(''2024-05-01'', ?r)]
                (handleAddItem 2 ?cfg1) = Inr [exportRow toLocaleString (handleAddItem 2 ?cfg1) ?r]"
    by (simp add: exportDataToExcel_def exportRows_def js_sort_def)
  have cols: "length (exportRow toLocaleString (handleAddItem 2 ?cfg1) ?r) \<le> 18"
    using exportRow_shared_label[OF shared, of toLocaleString ?r]
    by (simp only: cfg2) (simp add: handleAddItem_def len0)
  have first: "valueStr (handleAddItem 2 ?cfg1 ! 11) ?r = mark_yes"
    by (simp only: nth) (simp add: valueStr_def s1 truthy_string_def)
  have "map_of (exportRow toLocaleString (?cfg1 @ [?b]) ?r) (resultKey ?b) = Some (valueStr ?b ?r)"
    by (rule exportRow_last_item)
  moreover have "valueStr ?b ?r = []"
    by (simp add: valueStr_def s2)
  moreover have "resultKey ?b = resultKey ?a"
    by (simp add: resultKey_def)
  ultimately have cell: "map_of (exportRow toLocaleString (handleAddItem 2 ?cfg1) ?r)
                           (resultKey (handleAddItem 2 ?cfg1 ! 11)) = Some []"
    by (simp only: cfg2[symmetric] nth)
  show ?thesis
    using len rows cols first cell by blast
qed

section \<open>Ids of the configuration\<close>

lemma of_char_digit_char: "a < 10 \<Longrightarrow> of_char (digit_char a) = 48 + a"
  by (simp add: digit_char_def)

lemma digit_char_inj: "a < 10 \<Longrightarrow> b < 10 \<Longrightarrow> digit_char a = digit_char b \<Longrightarrow> a = b"
proof -
  assume a: "a < 10" and b: "b < 10" and eq: "digit_char a = digit_char b"
  have "48 + a = (of_char (digit_char a) :: nat)"
    by (simp only: of_char_digit_char[OF a])
  also have "\<dots> = of_char (digit_char b)"
    by (simp only: eq)
  also have "\<dots> = 48 + b"
    by (simp only: of_char_digit_char[OF b])
  finally show "a = b" by simp
qed

lemma digit_char_not_minus: "a < 10 \<Longrightarrow> digit_char a \<noteq> CHR ''-''"
proof
  assume a: "a < 10" and eq: "digit_char a = CHR ''-''"
  have "of_char (digit_char a) = (of_char (CHR ''-'') :: nat)" by (simp only: eq)
  then show False using of_char_digit_char[OF a] by simp
qed

lemma show_nat_nonempty: "show_nat n \<noteq> []"
  by (subst show_nat.simps) simp

lemma show_nat_digits: "c \<in> set (show_nat n) \<Longrightarrow> \<exists>d<10. c = digit_char d"
proof (induction n rule: show_nat.induct)
  case (1 n)
  show ?case
  proof (cases "n < 10")
    case True
    then show ?thesis using "1.prems" by (subst (asm) show_nat.simps) auto
  next
    case False
    from "1.prems" have "c \<in> set (show_nat (n div 10)) \<or> c = digit_char (n mod 10)"
      by (subst (asm) show_nat.simps) (use False in auto)
    then show ?thesis
    proof
      assume "c \<in> set (show_nat (n div 10))"
      then show ?thesis using "1.IH" False by simp
    next
      assume "c = digit_char (n mod 10)"
      moreover have "n mod 10 < 10" by simp
      ultimately show ?thesis by blast
    qed
  qed
qed

lemma show_nat_inj: "show_nat m = show_nat n \<Longrightarrow> m = n"
proof (induction m arbitrary: n rule: show_nat.induct)
  case (1 m)
  show ?case
  proof (cases "m < 10")
    case m: True
    show ?thesis
    proof (cases "n < 10")
      case True
      then show ?thesis
        using "1.prems" m digit_char_inj
        by (subst (asm) show_nat.simps, subst (asm) (2) show_nat.simps) auto
    next
      case False
      have "show_nat m = [digit_char m]" using m by (subst show_nat.simps) simp
      moreover have "show_nat n = show_nat (n div 10) @ [digit_char (n mod 10)]"
        using False by (subst show_nat.simps) simp
      ultimately have "show_nat (n div 10) = []" using "1.prems" by simp
      then show ?thesis using show_nat_nonempty by blast
    qed
  next
    case m: False
    have sm: "show_nat m = show_nat (m div 10) @ [digit_char (m mod 10)]"
      using m by (subst show_nat.simps) simp
    show ?thesis
    proof (cases "n < 10")
      case True
      have "show_nat n = [digit_char n]" using True by (subst show_nat.simps) simp
      with sm "1.prems" have "show_nat (m div 10) = []" by simp
      then show ?thesis using show_nat_nonempty by blast
    next
      case False
      have sn: "show_nat n = show_nat (n div 10) @ [digit_char (n mod 10)]"
        using False by (subst show_nat.simps) simp
      from sm sn "1.prems" have a: "show_nat (m div 10) = show_nat (n div 10)"
        and b: "digit_char (m mod 10) = digit_char (n mod 10)" by simp_all
      from a have "m div 10 = n div 10" using "1.IH" m by simp
      moreover from b have "m mod 10 = n mod 10" using digit_char_inj[of "m mod 10" "n mod 10"] by simp
      ultimately have "m div 10 * 10 + m mod 10 = n div 10 * 10 + n mod 10" by (simp only:)
      then show ?thesis by (simp only: div_mult_mod_eq)
    qed
  qed
qed

lemma show_nat_no_minus: "CHR ''-'' \<notin> set (show_nat n)"
proof
  assume "CHR ''-'' \<in> set (show_nat n)"
  then obtain d where "d < 10" "CHR ''-'' = digit_char d"
    using show_nat_digits by blast
  then show False using digit_char_not_minus[of d] by simp
qed

lemma show_nat_not_negative: "show_nat n \<noteq> CHR ''-'' # s"
  using show_nat_no_minus[of n] by auto

lemma show_int_inj: "show_int i = show_int j \<Longrightarrow> i = j"
proof -
  assume eq: "show_int i = show_int j"
  show ?thesis
  proof (cases "i < 0")
    case i: True
    show ?thesis
    proof (cases "j < 0")
      case True
      then have "show_nat (nat (- i)) = show_nat (nat (- j))" using eq i by (simp add: show_int_def)
      then have "nat (- i) = nat (- j)" by (rule show_nat_inj)
      then show ?thesis using i True by simp
    next
      case False
      then have "show_nat (nat j) = CHR ''-'' # show_nat (nat (- i))"
        using eq i by (simp add: show_int_def)
      then show ?thesis using show_nat_not_negative by blast
    qed
  next
    case i: False
    show ?thesis
    proof (cases "j < 0")
      case True
      then have "show_nat (nat i) = CHR ''-'' # show_nat (nat (- j))"
        using eq i by (simp add: show_int_def)
      then show ?thesis using show_nat_not_negative by blast
    next
      case False
      then have "show_nat (nat i) = show_nat (nat j)" using eq i by (simp add: show_int_def)
      then have "nat i = nat j" by (rule show_nat_inj)
      then show ?thesis using i False by simp
    qed
  qed
qed


lemma seed_ids_distinct: "distinct (map ci_id DEFAULT_CHECKLIST)"
  by (simp add: DEFAULT_CHECKLIST_def)

lemma seed_ids_not_custom: "''custom_'' @ s \<notin> ci_id ` set DEFAULT_CHECKLIST"
  by (simp add: DEFAULT_CHECKLIST_def)

lemma ids_handleAddItem:
  "map ci_id (handleAddItem t cfg) = map ci_id cfg @ [''custom_'' @ show_int t]"
  by (simp add: handleAddItem_def)

lemma ids_editText: "map ci_id (editText idx v cfg) = map ci_id cfg"
  by (simp add: editText_def map_update list_update_same_conv)

lemma ids_handleDeleteItem:
  "map ci_id (handleDeleteItem confirmed i cfg) =
     (if confirmed then filter (\<lambda>x. x \<noteq> i) (map ci_id cfg) else map ci_id cfg)"
  by (simp add: handleDeleteItem_def filter_map comp_def)

lemma fold_config_ops_distinct:
  assumes "distinct (map ci_id cfg)"
      and "distinct (add_times ops)"
      and "\<And>t. t \<in> set (add_times ops) \<Longrightarrow> ''custom_'' @ show_int t \<notin> set (map ci_id cfg)"
  shows "distinct (map ci_id (fold apply_config_op ops cfg))"
  using assms
proof (induction ops arbitrary: cfg)
  case Nil
  then show ?case by simp
next
  case (Cons op ops)
  show ?case
  proof (cases op)
    case (AddItem t)
    have fresh: "''custom_'' @ show_int t \<notin> set (map ci_id cfg)"
      using Cons.prems(3)[of t] AddItem by simp
    have d: "distinct (map ci_id (handleAddItem t cfg))"
      using Cons.prems(1) fresh by (simp add: ids_handleAddItem)
    have rest: "distinct (add_times ops)" and t: "t \<notin> set (add_times ops)"
      using Cons.prems(2) AddItem by simp_all
    have "''custom_'' @ show_int u \<notin> set (map ci_id (handleAddItem t cfg))"
      if u: "u \<in> set (add_times ops)" for u
    proof -
      have "u \<noteq> t" using u t by blast
      then have "show_int u \<noteq> show_int t" using show_int_inj by blast
      moreover have "''custom_'' @ show_int u \<notin> set (map ci_id cfg)"
        using Cons.prems(3)[of u] u AddItem by simp
      ultimately show ?thesis by (simp add: ids_handleAddItem)
    qed
    then have "distinct (map ci_id (fold apply_config_op ops (handleAddItem t cfg)))"
      using Cons.IH[OF d rest] by blast
    then show ?thesis by (simp add: AddItem)
  next
    case (EditText idx v)
    have "distinct (map ci_id (fold apply_config_op ops (editText idx v cfg)))"
    proof (rule Cons.IH)
      show "distinct (map ci_id (editText idx v cfg))"
        using Cons.prems(1) by (simp only: ids_editText)
      show "distinct (add_times ops)" using Cons.prems(2) EditText by simp
      show "''custom_'' @ show_int t \<notin> set (map ci_id (editText idx v cfg))"
        if "t \<in> set (add_times ops)" for t
        using Cons.prems(3)[of t] that EditText by (simp only: ids_editText) simp
    qed
    then show ?thesis by (simp add: EditText)
  next
    case (DeleteItem confirmed i)
    have "distinct (map ci_id (fold apply_config_op ops (handleDeleteItem confirmed i cfg)))"
    proof (rule Cons.IH)
      show "distinct (map ci_id (handleDeleteItem confirmed i cfg))"
        using Cons.prems(1) by (simp add: ids_handleDeleteItem)
      show "distinct (add_times ops)" using Cons.prems(2) DeleteItem by simp
      show "''custom_'' @ show_int t \<notin> set (map ci_id (handleDeleteItem confirmed i cfg))"
        if "t \<in> set (add_times ops)" for t
        using Cons.prems(3)[of t] that DeleteItem by (simp add: ids_handleDeleteItem)
    qed
    then show ?thesis by (simp add: DeleteItem)
  qed
qed

text \<open>
  Where no two additions read the same clock value the ids stay distinct: starting from
  the seed configuration, any such sequence of additions, text edits and deletions
  (confirmed or not) ends in a configuration whose ids are distinct.
\<close>

lemma ids_distinct_at_distinct_readings:
  assumes "distinct (add_times ops)"
  shows "distinct (map ci_id (run_config_ops ops DEFAULT_CHECKLIST))"
  unfolding run_config_ops_def
proof (rule fold_config_ops_distinct)
  show "distinct (map ci_id DEFAULT_CHECKLIST)" by (rule seed_ids_distinct)
  show "distinct (add_times ops)" by (rule assms)
  show "''custom_'' @ show_int t \<notin> set (map ci_id DEFAULT_CHECKLIST)" for t
    using seed_ids_not_custom by simp
qed

text \<open>
  C9 fails when two additions read the same value \<open>t\<close> of \<open>Date.now()\<close>: nothing
  compares the new id with those in the configuration, so both added items get the id
  \<open>custom_t\<close>, and the ids of the configuration, distinct in the seed, are distinct no
  more.
\<close>

theorem C9_same_clock_reading_repeats_id:
  "distinct (map ci_id DEFAULT_CHECKLIST)
 \<and> map ci_id (run_config_ops [AddItem t, AddItem t] DEFAULT_CHECKLIST) =
     map ci_id DEFAULT_CHECKLIST @ [''custom_'' @ show_int t, ''custom_'' @ show_int t]
 \<and> \<not> distinct (map ci_id (run_config_ops [AddItem t, AddItem t] DEFAULT_CHECKLIST))"
  by (simp add: seed_ids_distinct run_config_ops_def ids_handleAddItem)

section \<open>Debounced save\<close>

lemma persisted_doc:
  "persisted s =
     Doc (JObj (json_members [(''config'', to_json (config s)), (''records'', to_json (records s))]))"
  by (simp add: persisted_def JSON_stringify_def)

lemma elapse_none_due:
  "list_all (\<lambda>tm. t < fst (snd tm)) (timers sys) \<Longrightarrow> elapse t sys = sys"
proof -
  assume a: "list_all (\<lambda>tm. t < fst (snd tm)) (timers sys)"
  have "filter (\<lambda>tm. fst (snd tm) \<le> t) (timers sys) = []"
    using a by (auto simp: filter_empty_conv list_all_iff)
  moreover have "filter (\<lambda>tm. \<not> fst (snd tm) \<le> t) (timers sys) = timers sys"
    using a by (auto simp: filter_id_conv list_all_iff)
  ultimately show ?thesis by (simp add: elapse_def)
qed

lemma elapse_one_due:
  "timers sys = [(h, due, s)] \<Longrightarrow> due \<le> t \<Longrightarrow>
   elapse t sys = sys\<lparr>timers := [], writes := writes sys @ [persisted s]\<rparr>"
  by (simp add: elapse_def timer_callback_def)

lemma elapse_keeps_cleanup: "cleanup_holds_timers sys \<Longrightarrow> cleanup_holds_timers (elapse t sys)"
proof -
  assume a: "cleanup_holds_timers sys"
  have c: "cleanup (fold (\<lambda>tm. timer_callback (snd (snd tm))) xs sy) = cleanup sy"
    and t: "timers (fold (\<lambda>tm. timer_callback (snd (snd tm))) xs sy) = timers sy" for xs sy
    by (induction xs arbitrary: sy) (simp_all add: timer_callback_def)
  show ?thesis
    using a by (auto simp: cleanup_holds_timers_def elapse_def c t split: list.splits if_splits)
qed

lemma save_effect_timers:
  "cleanup_holds_timers sys \<Longrightarrow>
   timers (save_effect t s sys) = (if isLoading s then [] else [(nextTimer sys, t + 500, s)])"
  by (auto simp: cleanup_holds_timers_def save_effect_def clearTimeout_def setTimeout_def
      split: list.splits option.splits)

lemma save_effect_rest:
  "\<not> isLoading s \<Longrightarrow>
   cleanup (save_effect t s sys) = Some (nextTimer sys)
 \<and> nextTimer (save_effect t s sys) = Suc (nextTimer sys)
 \<and> writes (save_effect t s sys) = writes sys"
  by (simp add: save_effect_def clearTimeout_def setTimeout_def split: option.splits)

lemma run_changes_within_window:
  assumes "within_window t es"
      and "timers sys = [(h, t + 500, s)]" and "cleanup sys = Some h"
  shows "writes (run_changes es sys) = writes sys
       \<and> map snd (timers (run_changes es sys)) =
           [(fst (last ((t, s) # es)) + 500, snd (last ((t, s) # es)))]"
  using assms
proof (induction es arbitrary: t s h sys)
  case Nil
  then show ?case by simp
next
  case (Cons e es)
  obtain t' s' where e: "e = (t', s')" by (cases e)
  from Cons.prems(1) have t': "t \<le> t'" "t' < t + 500" and s': "\<not> isLoading s'"
    and rest: "within_window t' es" by (simp_all add: e)
  have same: "elapse t' sys = sys"
    by (rule elapse_none_due) (use Cons.prems(2) t' in simp)
  have inv: "cleanup_holds_timers sys"
    using Cons.prems(2,3) by (simp add: cleanup_holds_timers_def)
  let ?sys = "save_effect t' s' sys"
  have p: "timers ?sys = [(nextTimer sys, t' + 500, s')]"
    using save_effect_timers[OF inv, of t' s'] s' by simp
  have c: "cleanup ?sys = Some (nextTimer sys)" and w: "writes ?sys = writes sys"
    using save_effect_rest[OF s', of t' sys] by simp_all
  from Cons.IH[OF rest p c] w show ?case
    by (simp add: e same)
qed

text \<open>
  From a state in which the cleanup holds whatever timeout is pending, a burst of changes
  leaves the writes as they were until 500 ms after its last change, and adds exactly one
  then.
\<close>

lemma one_write_after_burst:
  assumes "cleanup_holds_timers sys"
      and "\<not> isLoading s1"
      and "within_window t1 es"
  shows "writes (elapse T (run_changes ((t1, s1) # es) sys)) =
           (if fst (last ((t1, s1) # es)) + 500 \<le> T
            then writes (elapse t1 sys) @
                   [Doc (JObj (json_members
                      [(''config'', to_json (config (snd (last ((t1, s1) # es))))),
                       (''records'', to_json (records (snd (last ((t1, s1) # es)))))]))]
            else writes (elapse t1 sys))
       \<and> map snd (timers (run_changes ((t1, s1) # es) sys)) =
           [(fst (last ((t1, s1) # es)) + 500, snd (last ((t1, s1) # es)))]
       \<and> timers (save_effect t s sys) = (if isLoading s then [] else [(nextTimer sys, t + 500, s)])"
proof -
  have cancel: "timers (save_effect t s sys) = (if isLoading s then [] else [(nextTimer sys, t + 500, s)])"
    by (rule save_effect_timers[OF assms(1)])
  let ?start = "elapse t1 sys"
  let ?sys = "save_effect t1 s1 ?start"
  have inv: "cleanup_holds_timers ?start"
    by (rule elapse_keeps_cleanup[OF assms(1)])
  have p: "timers ?sys = [(nextTimer ?start, t1 + 500, s1)]"
    using save_effect_timers[OF inv, of t1 s1] assms(2) by simp
  have c: "cleanup ?sys = Some (nextTimer ?start)" and w: "writes ?sys = writes ?start"
    using save_effect_rest[OF assms(2), of t1 ?start] by simp_all
  let ?end = "run_changes ((t1, s1) # es) sys"
  let ?tn = "fst (last ((t1, s1) # es))"
  let ?sn = "snd (last ((t1, s1) # es))"
  from run_changes_within_window[OF assms(3) p c] w
  have we: "writes ?end = writes ?start"
    and te: "map snd (timers ?end) = [(?tn + 500, ?sn)]"
    by simp_all
  from te obtain h where th: "timers ?end = [(h, ?tn + 500, ?sn)]"
    by (cases "timers ?end") auto
  have "writes (elapse T ?end) =
          (if ?tn + 500 \<le> T then writes ?start @ [persisted ?sn] else writes ?start)"
  proof (cases "?tn + 500 \<le> T")
    case True
    then show ?thesis using elapse_one_due[OF th True] we by simp
  next
    case False
    then have "list_all (\<lambda>tm. T < fst (snd tm)) (timers ?end)"
      by (simp only: th) simp
    then have "elapse T ?end = ?end"
      by (rule elapse_none_due)
    then show ?thesis using False we by simp
  qed
  then show ?thesis
    using te cancel by (simp only: persisted_doc)
qed

text \<open>
  Every state the effect reaches from the mounted component is such a state, whatever
  the changes and their times were.
\<close>

lemma save_effect_keeps_cleanup:
  "cleanup_holds_timers sys \<Longrightarrow> cleanup_holds_timers (save_effect t s sys)"
  using save_effect_timers[of sys t s] save_effect_rest[of s t sys]
  by (cases "isLoading s") (simp_all add: cleanup_holds_timers_def)

lemma run_changes_keeps_cleanup:
  "cleanup_holds_timers sys \<Longrightarrow> cleanup_holds_timers (run_changes hs sys)"
proof (induction hs arbitrary: sys)
  case Nil
  then show ?case by simp
next
  case (Cons e hs)
  obtain t s where e: "e = (t, s)" by (cases e)
  show ?case
    using Cons.IH[OF save_effect_keeps_cleanup[OF elapse_keeps_cleanup[OF Cons.prems], of t s t]]
    by (simp add: e)
qed

lemma reachable_holds_cleanup: "cleanup_holds_timers (run_changes hs mounted)"
  by (rule run_changes_keeps_cleanup) (simp add: cleanup_holds_timers_def mounted_def)

lemma run_changes_append: "run_changes (hs @ es) sys = run_changes es (run_changes hs sys)"
  by (induction hs arbitrary: sys) auto

text \<open>
  C7. After any history \<open>hs\<close> of the mounted component, let state changes be made
  outside loading, each less than 500 ms after the one before. Whatever write was due
  before the first of them is in the writes at the time of the first change. From then on
  the changes add no write until 500 ms after the last one; from that moment there is
  exactly one more write, and it is the JSON text of the object made of the \<open>config\<close>
  and the \<open>records\<close> of the last change. After the changes exactly one timeout is
  pending, that of the last change; and every run of the effect leaves no timeout pending
  but the one it sets: the one pending before it is cleared.
\<close>

theorem C7_one_write_after_the_last_change:
  assumes "\<not> isLoading s1"
      and "within_window t1 es"
  shows "writes (elapse T (run_changes (hs @ (t1, s1) # es) mounted)) =
           (if fst (last ((t1, s1) # es)) + 500 \<le> T
            then writes (elapse t1 (run_changes hs mounted)) @
                   [Doc (JObj (json_members
                      [(''config'', to_json (config (snd (last ((t1, s1) # es))))),
                       (''records'', to_json (records (snd (last ((t1, s1) # es)))))]))]
            else writes (elapse t1 (run_changes hs mounted)))
       \<and> map snd (timers (run_changes (hs @ (t1, s1) # es) mounted)) =
           [(fst (last ((t1, s1) # es)) + 500, snd (last ((t1, s1) # es)))]
       \<and> timers (save_effect t s (run_changes hs mounted)) =
           (if isLoading s then [] else [(nextTimer (run_changes hs mounted), t + 500, s)])"
  using one_write_after_burst[OF reachable_holds_cleanup[of hs] assms, of T t s]
  by (simp only: run_changes_append)

text \<open>
  An instance: the component mounts loading; at 1000 ms loading ends, at 1100 ms and
  1400 ms the temperature is edited, at 1800 ms the text of the item. Nothing is written
  up to 2299 ms; at 2300 ms the one write holds the edited text and the last temperature.
\<close>

theorem C7_one_write_witness:
  "within_window 1000
       [(1100, \<lparr>config = config_to_js [\<lparr>ci_id = ''c1'', category = ''A'', ci_text = ''wash'', ci_type = BooleanItem,
               ci_unit = None, displayOrder = 1\<rparr>],
          records = VObj [(''2024-05-01'',
               DayRecord_to_js
                 \<lparr>date = ''2024-05-01'', checks = [],
                  health = \<lparr>temp = ''36.5'', symptom = Nashi, wound = Nashi, details = None\<rparr>,
                  lastUpdated = ''09:00:00.100''\<rparr>)],
          isLoading = False\<rparr>),
        (1400, \<lparr>config = config_to_js [\<lparr>ci_id = ''c1'', category = ''A'', ci_text = ''wash'', ci_type = BooleanItem,
               ci_unit = None, displayOrder = 1\<rparr>],
          records = VObj [(''2024-05-01'',
               DayRecord_to_js
                 \<lparr>date = ''2024-05-01'', checks = [],
                  health = \<lparr>temp = ''36.6'', symptom = Nashi, wound = Nashi, details = None\<rparr>,
                  lastUpdated = ''09:00:00.400''\<rparr>)],
          isLoading = False\<rparr>),
        (1800, \<lparr>config = config_to_js [\<lparr>ci_id = ''c1'', category = ''A'', ci_text = ''wash hands'', ci_type = BooleanItem,
               ci_unit = None, displayOrder = 1\<rparr>],
          records = VObj [(''2024-05-01'',
               DayRecord_to_js
                 \<lparr>date = ''2024-05-01'', checks = [],
                  health = \<lparr>temp = ''36.6'', symptom = Nashi, wound = Nashi, details = None\<rparr>,
                  lastUpdated = ''09:00:00.400''\<rparr>)],
          isLoading = False\<rparr>)]
 \<and> writes (elapse 2300 (run_changes
       [(0, initial_state),
        (1000, \<lparr>config = config_to_js [\<lparr>ci_id = ''c1'', category = ''A'', ci_text = ''wash'', ci_type = BooleanItem,
               ci_unit = None, displayOrder = 1\<rparr>],
          records = VObj [],
          isLoading = False\<rparr>),
        (1100, \<lparr>config = config_to_js [\<lparr>ci_id = ''c1'', category = ''A'', ci_text = ''wash'', ci_type = BooleanItem,
               ci_unit = None, displayOrder = 1\<rparr>],
          records = VObj [(''2024-05-01'',
               DayRecord_to_js
                 \<lparr>date = ''2024-05-01'', checks = [],
                  health = \<lparr>temp = ''36.5'', symptom = Nashi, wound = Nashi, details = None\<rparr>,
                  lastUpdated = ''09:00:00.100''\<rparr>)],
          isLoading = False\<rparr>),
        (1400, \<lparr>config = config_to_js [\<lparr>ci_id = ''c1'', category = ''A'', ci_text = ''wash'', ci_type = BooleanItem,
               ci_unit = None, displayOrder = 1\<rparr>],
          records = VObj [(''2024-05-01'',
               DayRecord_to_js
                 \<lparr>date = ''2024-05-01'', checks = [],
                  health = \<lparr>temp = ''36.6'', symptom = Nashi, wound = Nashi, details = None\<rparr>,
                  lastUpdated = ''09:00:00.400''\<rparr>)],
          isLoading = False\<rparr>),
        (1800, \<lparr>config = config_to_js [\<lparr>ci_id = ''c1'', category = ''A'', ci_text = ''wash hands'', ci_type = BooleanItem,
               ci_unit = None, displayOrder = 1\<rparr>],
          records = VObj [(''2024-05-01'',
               DayRecord_to_js
                 \<lparr>date = ''2024-05-01'', checks = [],
                  health = \<lparr>temp = ''36.6'', symptom = Nashi, wound = Nashi, details = None\<rparr>,
                  lastUpdated = ''09:00:00.400''\<rparr>)],
          isLoading = False\<rparr>)]
       mounted)) =
     [Doc (JObj
        [(''config'',
          JArr [JObj [(''id'', JStr ''c1''), (''category'', JStr ''A''),
                      (''text'', JStr ''wash hands''), (''type'', JStr ''boolean''),
                      (''displayOrder'', JNum 1)]]),
         (''records'',
          JObj [(''2024-05-01'',
                 JObj [(''date'', JStr ''2024-05-01''), (''checks'', JArr []),
                       (''health'',
                        JObj [(''temp'', JStr ''36.6''), (''symptom'', JStr nashi),
                              (''wound'', JStr nashi)]),
                       (''lastUpdated'', JStr ''09:00:00.400'')])])])]
 \<and> writes (elapse 2299 (run_changes
       [(0, initial_state),
        (1000, \<lparr>config = config_to_js [\<lparr>ci_id = ''c1'', category = ''A'', ci_text = ''wash'', ci_type = BooleanItem,
               ci_unit = None, displayOrder = 1\<rparr>],
          records = VObj [],
          isLoading = False\<rparr>),
        (1100, \<lparr>config = config_to_js [\<lparr>ci_id = ''c1'', category = ''A'', ci_text = ''wash'', ci_type = BooleanItem,
               ci_unit = None, displayOrder = 1\<rparr>],
          records = VObj [(''2024-05-01'',
               DayRecord_to_js
                 \<lparr>date = ''2024-05-01'', checks = [],
                  health = \<lparr>temp = ''36.5'', symptom = Nashi, wound = Nashi, details = None\<rparr>,
                  lastUpdated = ''09:00:00.100''\<rparr>)],
          isLoading = False\<rparr>),
        (1400, \<lparr>config = config_to_js [\<lparr>ci_id = ''c1'', category = ''A'', ci_text = ''wash'', ci_type = BooleanItem,
               ci_unit = None, displayOrder = 1\<rparr>],
          records = VObj [(''2024-05-01'',
               DayRecord_to_js
                 \<lparr>date = ''2024-05-01'', checks = [],
                  health = \<lparr>temp = ''36.6'', symptom = Nashi, wound = Nashi, details = None\<rparr>,
                  lastUpdated = ''09:00:00.400''\<rparr>)],
          isLoading = False\<rparr>),
        (1800, \<lparr>config = config_to_js [\<lparr>ci_id = ''c1'', category = ''A'', ci_text = ''wash hands'', ci_type = BooleanItem,
               ci_unit = None, displayOrder = 1\<rparr>],
          records = VObj [(''2024-05-01'',
               DayRecord_to_js
                 \<lparr>date = ''2024-05-01'', checks = [],
                  health = \<lparr>temp = ''36.6'', symptom = Nashi, wound = Nashi, details = None\<rparr>,
                  lastUpdated = ''09:00:00.400''\<rparr>)],
          isLoading = False\<rparr>)]
       mounted)) = []
 \<and> map snd (timers (run_changes
       [(0, initial_state),
        (1000, \<lparr>config = config_to_js [\<lparr>ci_id = ''c1'', category = ''A'', ci_text = ''wash'', ci_type = BooleanItem,
               ci_unit = None, displayOrder = 1\<rparr>],
          records = VObj [],
          isLoading = False\<rparr>),
        (1100, \<lparr>config = config_to_js [\<lparr>ci_id = ''c1'', category = ''A'', ci_text = ''wash'', ci_type = BooleanItem,
               ci_unit = None, displayOrder = 1\<rparr>],
          records = VObj [(''2024-05-01'',
               DayRecord_to_js
                 \<lparr>date = ''2024-05-01'', checks = [],
                  health = \<lparr>temp = ''36.5'', symptom = Nashi, wound = Nashi, details = None\<rparr>,
                  lastUpdated = ''09:00:00.100''\<rparr>)],
          isLoading = False\<rparr>),
        (1400, \<lparr>config = config_to_js [\<lparr>ci_id = ''c1'', category = ''A'', ci_text = ''wash'', ci_type = BooleanItem,
               ci_unit = None, displayOrder = 1\<rparr>],
          records = VObj [(''2024-05-01'',
               DayRecord_to_js
                 \<lparr>date = ''2024-05-01'', checks = [],
                  health = \<lparr>temp = ''36.6'', symptom = Nashi, wound = Nashi, details = None\<rparr>,
                  lastUpdated = ''09:00:00.400''\<rparr>)],
          isLoading = False\<rparr>),
        (1800, \<lparr>config = config_to_js [\<lparr>ci_id = ''c1'', category = ''A'', ci_text = ''wash hands'', ci_type = BooleanItem,
               ci_unit = None, displayOrder = 1\<rparr>],
          records = VObj [(''2024-05-01'',
               DayRecord_to_js
                 \<lparr>date = ''2024-05-01'', checks = [],
                  health = \<lparr>temp = ''36.6'', symptom = Nashi, wound = Nashi, details = None\<rparr>,
                  lastUpdated = ''09:00:00.400''\<rparr>)],
          isLoading = False\<rparr>)]
       mounted)) =
     [(2300, \<lparr>config = config_to_js [\<lparr>ci_id = ''c1'', category = ''A'', ci_text = ''wash hands'', ci_type = BooleanItem,
               ci_unit = None, displayOrder = 1\<rparr>],
          records = VObj [(''2024-05-01'',
               DayRecord_to_js
                 \<lparr>date = ''2024-05-01'', checks = [],
                  health = \<lparr>temp = ''36.6'', symptom = Nashi, wound = Nashi, details = None\<rparr>,
                  lastUpdated = ''09:00:00.400''\<rparr>)],
          isLoading = False\<rparr>)]"
proof -
  let ?s1 = "\<lparr>config = config_to_js [\<lparr>ci_id = ''c1'', category = ''A'', ci_text = ''wash'', ci_type = BooleanItem,
               ci_unit = None, displayOrder = 1\<rparr>],
          records = VObj [],
          isLoading = False\<rparr>"
  let ?es = "[(1100, \<lparr>config = config_to_js [\<lparr>ci_id = ''c1'', category = ''A'', ci_text = ''wash'', ci_type = BooleanItem,
               ci_unit = None, displayOrder = 1\<rparr>],
          records = VObj [(''2024-05-01'',
               DayRecord_to_js
                 \<lparr>date = ''2024-05-01'', checks = [],
                  health = \<lparr>temp = ''36.5'', symptom = Nashi, wound = Nashi, details = None\<rparr>,
                  lastUpdated = ''09:00:00.100''\<rparr>)],
          isLoading = False\<rparr>),
        (1400, \<lparr>config = config_to_js [\<lparr>ci_id = ''c1'', category = ''A'', ci_text = ''wash'', ci_type = BooleanItem,
               ci_unit = None, displayOrder = 1\<rparr>],
          records = VObj [(''2024-05-01'',
               DayRecord_to_js
                 \<lparr>date = ''2024-05-01'', checks = [],
                  health = \<lparr>temp = ''36.6'', symptom = Nashi, wound = Nashi, details = None\<rparr>,
                  lastUpdated = ''09:00:00.400''\<rparr>)],
          isLoading = False\<rparr>),
        (1800, \<lparr>config = config_to_js [\<lparr>ci_id = ''c1'', category = ''A'', ci_text = ''wash hands'', ci_type = BooleanItem,
               ci_unit = None, displayOrder = 1\<rparr>],
          records = VObj [(''2024-05-01'',
               DayRecord_to_js
                 \<lparr>date = ''2024-05-01'', checks = [],
                  health = \<lparr>temp = ''36.6'', symptom = Nashi, wound = Nashi, details = None\<rparr>,
                  lastUpdated = ''09:00:00.400''\<rparr>)],
          isLoading = False\<rparr>)]"
  have hyps: "\<not> isLoading ?s1" "within_window 1000 ?es"
    by simp_all
  have e: "writes (elapse 1000 (run_changes [(0, initial_state)] mounted)) = []"
    by (simp add: elapse_def mounted_def save_effect_def initial_state_def)
  have d: "Doc (JObj (json_members
             [(''config'', to_json (config (snd (last ((1000, ?s1) # ?es))))),
              (''records'', to_json (records (snd (last ((1000, ?s1) # ?es)))))])) =
           Doc (JObj
        [(''config'',
          JArr [JObj [(''id'', JStr ''c1''), (''category'', JStr ''A''),
                      (''text'', JStr ''wash hands''), (''type'', JStr ''boolean''),
                      (''displayOrder'', JNum 1)]]),
         (''records'',
          JObj [(''2024-05-01'',
                 JObj [(''date'', JStr ''2024-05-01''), (''checks'', JArr []),
                       (''health'',
                        JObj [(''temp'', JStr ''36.6''), (''symptom'', JStr nashi),
                              (''wound'', JStr nashi)]),
                       (''lastUpdated'', JStr ''09:00:00.400'')])])])"
    by (simp add: config_to_js_def CheckItem_to_js_def DayRecord_to_js_def HealthRecord_to_js_def
        opt_prop_def ItemType_to_js_def Presence_str_def json_element_def json_number_def)
  show ?thesis
    using hyps(2) e
      C7_one_write_after_the_last_change[OF hyps, of 2300 "[(0, initial_state)]"]
      C7_one_write_after_the_last_change[OF hyps, of 2299 "[(0, initial_state)]"]
    by (simp only: d) simp
qed


end
